theory Spec2Isabelle
  imports Complex_Main
begin

section \<open>Data model (models.py)\<close>

text \<open>
  The tables of the application are lists of rows; a row is a record with the columns the
  absence computations read. Columns are taken at their declared types: \<open>Integer\<close> as
  \<open>int\<close>, \<open>Boolean\<close> as \<open>bool\<close>, \<open>Date\<close> as the ordinal of the day, and \<open>Float\<close> as an
  exact rational (the rounding of binary floating point is not part of the model).
\<close>

type_synonym date = int

record Module =
  m_id :: int
  m_code :: string
  m_name :: string
  absence_threshold :: rat
  m_is_active :: bool

record StudentProfile =
  sp_id :: int
  sp_user_id :: int
  sp_last_name :: string

record ProfessorProfile =
  pp_id :: int
  pp_user_id :: int

record StudentAbsence =
  sa_id :: int
  sa_student_id :: int
  sa_module_id :: int
  sa_date :: date
  sa_hours :: rat
  sa_reason :: "string option"
  sa_is_justified :: bool
  sa_recorded_by_id :: int

record ProfessorAbsence =
  pa_id :: int
  pa_professor_id :: int
  pa_date :: date
  pa_hours :: rat
  pa_reason :: "string option"
  pa_is_justified :: bool
  pa_recorded_by_id :: int

record ThresholdSetting =
  threshold_days :: int
  threshold_hours :: int
  warning_percentage :: rat

record database =
  students :: "StudentProfile list"
  professors :: "ProfessorProfile list"
  modules :: "Module list"
  student_absences :: "StudentAbsence list"
  professor_absences :: "ProfessorAbsence list"

datatype py_error = ZeroDivisionError | AttributeError

text \<open>\<open>Module.query.get(k)\<close> and \<open>StudentProfile.query.get(k)\<close>: the row with that primary key.\<close>

definition Module_query_get :: "database \<Rightarrow> int \<Rightarrow> Module option" where
  "Module_query_get db k = find (\<lambda>m. m_id m = k) (modules db)"

definition StudentProfile_query_get :: "database \<Rightarrow> int \<Rightarrow> StudentProfile option" where
  "StudentProfile_query_get db k = find (\<lambda>s. sp_id s = k) (students db)"

text \<open>Python's \<open>a / b\<close> raises \<open>ZeroDivisionError\<close> on a zero divisor.\<close>

definition py_truediv :: "rat \<Rightarrow> rat \<Rightarrow> py_error + rat" where
  "py_truediv a b = (if b = 0 then Inl ZeroDivisionError else Inr (a / b))"

section \<open>Absence aggregator and threshold evaluator (models.py)\<close>

text \<open>
  \<open>StudentProfile.get_total_absence_hours(self, module_id=None, count_justified=False)\<close>.
  The test \<open>if module_id:\<close> is Python truthiness: both \<open>None\<close> and \<open>0\<close> skip the module
  filter.
\<close>

definition student_get_total_absence_hours ::
  "database \<Rightarrow> int \<Rightarrow> int option \<Rightarrow> bool \<Rightarrow> rat" where
  "student_get_total_absence_hours db self_id module_id count_justified =
     (let query0 = filter (\<lambda>a. sa_student_id a = self_id) (student_absences db);
          query1 = (case module_id of
                      None \<Rightarrow> query0
                    | Some k \<Rightarrow> if k \<noteq> 0 then filter (\<lambda>a. sa_module_id a = k) query0
                                else query0);
          query2 = (if \<not> count_justified then filter (\<lambda>a. \<not> sa_is_justified a) query1
                    else query1)
      in sum_list (map sa_hours query2))"

text \<open>\<open>StudentProfile.get_absence_rate(self, module_id)\<close>.\<close>

definition get_absence_rate :: "database \<Rightarrow> int \<Rightarrow> int \<Rightarrow> py_error + rat" where
  "get_absence_rate db self_id module_id =
     (case Module_query_get db module_id of
        None \<Rightarrow> Inr 0
      | Some module' \<Rightarrow>
          if absence_threshold module' = 0 then Inr 0
          else (let total_absence =
                      student_get_total_absence_hours db self_id (Some module_id) False
                in case py_truediv total_absence (absence_threshold module') of
                     Inl e \<Rightarrow> Inl e
                   | Inr q \<Rightarrow> Inr (q * 100)))"

text \<open>\<open>StudentProfile.check_threshold_status(self, module_id)\<close>.\<close>

definition check_threshold_status :: "database \<Rightarrow> int \<Rightarrow> int \<Rightarrow> string" where
  "check_threshold_status db self_id module_id =
     (case Module_query_get db module_id of
        None \<Rightarrow> ''ok''
      | Some module' \<Rightarrow>
          (let total_absence =
                 student_get_total_absence_hours db self_id (Some module_id) False;
               threshold = absence_threshold module'
           in if total_absence \<ge> threshold then ''exceeded''
              else if total_absence \<ge> threshold * 0.5 then ''warning''
              else ''ok''))"

text \<open>
  \<open>ProfessorProfile.get_total_absence_hours(self, count_justified=False)\<close>; the relationship
  \<open>self.absences\<close> is the professor's rows of the absence table.
\<close>

definition professor_absences_of :: "database \<Rightarrow> int \<Rightarrow> ProfessorAbsence list" where
  "professor_absences_of db self_id =
     filter (\<lambda>a. pa_professor_id a = self_id) (professor_absences db)"

definition professor_get_total_absence_hours :: "database \<Rightarrow> int \<Rightarrow> bool \<Rightarrow> rat" where
  "professor_get_total_absence_hours db self_id count_justified =
     (let absences0 = professor_absences_of db self_id;
          absences1 = (if \<not> count_justified then filter (\<lambda>a. \<not> pa_is_justified a) absences0
                       else absences0)
      in sum_list (map pa_hours absences1))"

text \<open>\<open>ProfessorProfile.get_total_absence_days(self, count_justified=False)\<close>.\<close>

definition get_total_absence_days :: "database \<Rightarrow> int \<Rightarrow> bool \<Rightarrow> rat" where
  "get_total_absence_days db self_id count_justified =
     (let hours = professor_get_total_absence_hours db self_id count_justified
      in hours / 8)"

text \<open>\<open>ThresholdSetting.get_total_hours(self)\<close>.\<close>

definition get_total_hours :: "ThresholdSetting \<Rightarrow> int" where
  "get_total_hours self = (threshold_days self * 8) + threshold_hours self"

section \<open>Application exceptions (utils/exceptions.py)\<close>

text \<open>
  JSON values as the exception attributes and the response bodies hold them; \<open>JNull\<close> is
  Python's \<open>None\<close>. \<open>truthy\<close> is the truth value Python's \<open>if v:\<close> gives.
\<close>

datatype json = JNull | JBool bool | JInt int | JNum rat | JStr string | JList "json list"

fun truthy :: "json \<Rightarrow> bool" where
  "truthy JNull = False"
| "truthy (JBool b) = b"
| "truthy (JInt n) = (n \<noteq> 0)"
| "truthy (JNum r) = (r \<noteq> 0)"
| "truthy (JStr s) = (s \<noteq> [])"
| "truthy (JList xs) = (xs \<noteq> [])"

text \<open>
  One constructor per exception class, holding the arguments of its \<open>__init__\<close> (a default
  message is passed by the caller): \<open>AppException message status_code payload\<close>,
  \<open>ValidationError message field errors\<close>, \<open>NotFoundError message resource_type resource_id\<close>,
  \<open>BusinessRuleError message rule\<close>,
  \<open>ThresholdExceededError message current_hours threshold_hours module_name\<close>,
  \<open>DuplicateError message field\<close>.
\<close>

datatype app_exception =
    AppException string int "(string \<rightharpoonup> json) option"
  | ValidationError string json "json list option"
  | AuthorizationError string
  | AuthenticationError string
  | NotFoundError string json json
  | BusinessRuleError string json
  | ThresholdExceededError string json json json
  | DuplicateError string json
  | DatabaseError string
  | EmailError string

text \<open>\<open>self.__class__.__name__\<close>.\<close>

fun class_name :: "app_exception \<Rightarrow> string" where
  "class_name (AppException _ _ _) = ''AppException''"
| "class_name (ValidationError _ _ _) = ''ValidationError''"
| "class_name (AuthorizationError _) = ''AuthorizationError''"
| "class_name (AuthenticationError _) = ''AuthenticationError''"
| "class_name (NotFoundError _ _ _) = ''NotFoundError''"
| "class_name (BusinessRuleError _ _) = ''BusinessRuleError''"
| "class_name (ThresholdExceededError _ _ _ _) = ''ThresholdExceededError''"
| "class_name (DuplicateError _ _) = ''DuplicateError''"
| "class_name (DatabaseError _) = ''DatabaseError''"
| "class_name (EmailError _) = ''EmailError''"

text \<open>The attributes \<open>message\<close>, \<open>status_code\<close> and \<open>payload\<close> as the constructors set them.\<close>

fun message :: "app_exception \<Rightarrow> string" where
  "message (AppException m _ _) = m"
| "message (ValidationError m _ _) = m"
| "message (AuthorizationError m) = m"
| "message (AuthenticationError m) = m"
| "message (NotFoundError m _ _) = m"
| "message (BusinessRuleError m _) = m"
| "message (ThresholdExceededError m _ _ _) = m"
| "message (DuplicateError m _) = m"
| "message (DatabaseError m) = m"
| "message (EmailError m) = m"

fun status_code :: "app_exception \<Rightarrow> int" where
  "status_code (AppException _ c _) = c"
| "status_code (ValidationError _ _ _) = 400"
| "status_code (AuthorizationError _) = 403"
| "status_code (AuthenticationError _) = 401"
| "status_code (NotFoundError _ _ _) = 404"
| "status_code (BusinessRuleError _ _) = 422"
| "status_code (ThresholdExceededError _ _ _ _) = 422"
| "status_code (DuplicateError _ _) = 409"
| "status_code (DatabaseError _) = 500"
| "status_code (EmailError _) = 500"

fun payload :: "app_exception \<Rightarrow> (string \<rightharpoonup> json) option" where
  "payload (AppException _ _ p) = p"
| "payload _ = None"

text \<open>\<open>AppException.to_dict\<close>: \<open>dict(self.payload or ())\<close>, then the three envelope keys.\<close>

definition AppException_to_dict :: "app_exception \<Rightarrow> (string \<rightharpoonup> json)" where
  "AppException_to_dict self =
     (let rv = (case payload self of None \<Rightarrow> Map.empty | Some p \<Rightarrow> p);
          rv = rv(''success'' \<mapsto> JBool False);
          rv = rv(''error'' \<mapsto> JStr (class_name self));
          rv = rv(''message'' \<mapsto> JStr (message self))
      in rv)"

text \<open>\<open>BusinessRuleError.to_dict\<close>, which \<open>ThresholdExceededError.to_dict\<close> extends.\<close>

definition BusinessRuleError_to_dict :: "app_exception \<Rightarrow> json \<Rightarrow> (string \<rightharpoonup> json)" where
  "BusinessRuleError_to_dict self rule =
     (let rv = AppException_to_dict self
      in if truthy rule then rv(''rule'' \<mapsto> rule) else rv)"

text \<open>\<open>to_dict\<close> as the class of the exception overrides it.\<close>

definition to_dict :: "app_exception \<Rightarrow> (string \<rightharpoonup> json)" where
  "to_dict self =
     (case self of
        ValidationError _ field errors \<Rightarrow>
          (let rv = AppException_to_dict self;
               errors' = (case errors of None \<Rightarrow> [] | Some es \<Rightarrow> es);
               rv = (if truthy field then rv(''field'' \<mapsto> field) else rv);
               rv = (if errors' \<noteq> [] then rv(''errors'' \<mapsto> JList errors') else rv)
           in rv)
      | NotFoundError _ resource_type resource_id \<Rightarrow>
          (let rv = AppException_to_dict self;
               rv = (if truthy resource_type then rv(''resource_type'' \<mapsto> resource_type) else rv);
               rv = (if truthy resource_id then rv(''resource_id'' \<mapsto> resource_id) else rv)
           in rv)
      | BusinessRuleError _ rule \<Rightarrow> BusinessRuleError_to_dict self rule
      | ThresholdExceededError _ current_hours threshold_hours' module_name' \<Rightarrow>
          (let rv = BusinessRuleError_to_dict self (JStr ''absence_threshold_exceeded'');
               rv = (if current_hours \<noteq> JNull then rv(''current_hours'' \<mapsto> current_hours) else rv);
               rv = (if threshold_hours' \<noteq> JNull
                     then rv(''threshold_hours'' \<mapsto> threshold_hours') else rv);
               rv = (if truthy module_name' then rv(''module_name'' \<mapsto> module_name') else rv)
           in rv)
      | DuplicateError _ field \<Rightarrow>
          (let rv = AppException_to_dict self
           in if truthy field then rv(''field'' \<mapsto> field) else rv)
      | _ \<Rightarrow> AppException_to_dict self)"

text \<open>\<open>to_response\<close>: the JSON body and the HTTP status.\<close>

definition to_response :: "app_exception \<Rightarrow> (string \<rightharpoonup> json) \<times> int" where
  "to_response self = (to_dict self, status_code self)"

section \<open>Notifier (utils/email_service.py)\<close>

text \<open>
  A notification is the call of \<open>EmailService.send_threshold_warning(user, module_name,
  current_hours, threshold_hours, percentage)\<close> or of \<open>send_threshold_exceeded(user,
  module_name, current_hours, threshold_hours)\<close>; the user is given by its id. Building and
  handing over the message may raise: the mail environment is a function that tells, for a
  notification, the text of the exception raised, or \<open>None\<close> when the call returns. The
  application state is the database with the notifications handed over so far and the lines
  written with \<open>current_app.logger.error\<close>.
\<close>

datatype notification =
    ThresholdWarning int string rat rat int
  | ThresholdExceeded int string rat rat

type_synonym mailer = "notification \<Rightarrow> string option"

record app_state =
  db :: database
  outbox :: "notification list"
  error_log :: "string list"

definition send_email :: "mailer \<Rightarrow> app_state \<Rightarrow> notification \<Rightarrow> string + app_state" where
  "send_email mail st n =
     (case mail n of
        Some e \<Rightarrow> Inl e
      | None \<Rightarrow> Inr (st\<lparr>outbox := outbox st @ [n]\<rparr>))"

definition send_threshold_warning ::
  "mailer \<Rightarrow> app_state \<Rightarrow> int \<Rightarrow> string \<Rightarrow> rat \<Rightarrow> rat \<Rightarrow> int \<Rightarrow> string + app_state" where
  "send_threshold_warning mail st user module_name' current_hours threshold_hours' percentage =
     send_email mail st
       (ThresholdWarning user module_name' current_hours threshold_hours' percentage)"

definition send_threshold_exceeded ::
  "mailer \<Rightarrow> app_state \<Rightarrow> int \<Rightarrow> string \<Rightarrow> rat \<Rightarrow> rat \<Rightarrow> string + app_state" where
  "send_threshold_exceeded mail st user module_name' current_hours threshold_hours' =
     send_email mail st (ThresholdExceeded user module_name' current_hours threshold_hours')"

definition logger_error :: "app_state \<Rightarrow> string \<Rightarrow> app_state" where
  "logger_error st line = st\<lparr>error_log := error_log st @ [line]\<rparr>"

text \<open>Python's \<open>round(x)\<close>: to the nearest integer, a tie to the even neighbour.\<close>

definition py_round :: "rat \<Rightarrow> int" where
  "py_round x =
     (let f = \<lfloor>x\<rfloor>; r = x - of_int f
      in if r < 1 / 2 then f
         else if r > 1 / 2 then f + 1
         else if even f then f else f + 1)"

fun str_of_error :: "py_error \<Rightarrow> string" where
  "str_of_error ZeroDivisionError = ''division by zero''"
| "str_of_error AttributeError = ''NoneType object has no attribute''"

section \<open>Database operations used by the routes\<close>

text \<open>
  \<open>StudentAbsence.query.filter_by(student_id=.., module_id=.., date=..).first()\<close> and its
  professor counterpart; \<open>db.session.add\<close> followed by \<open>commit\<close> appends the row, whose
  primary key the database engine draws above those in use. The messages of the routes are
  written without their accents.
\<close>

definition existing_student_absence ::
  "database \<Rightarrow> int \<Rightarrow> int \<Rightarrow> date \<Rightarrow> StudentAbsence option" where
  "existing_student_absence d student_id module_id day =
     find (\<lambda>a. sa_student_id a = student_id \<and> sa_module_id a = module_id \<and> sa_date a = day)
       (student_absences d)"

definition existing_professor_absence ::
  "database \<Rightarrow> int \<Rightarrow> date \<Rightarrow> ProfessorAbsence option" where
  "existing_professor_absence d professor_id day =
     find (\<lambda>a. pa_professor_id a = professor_id \<and> pa_date a = day) (professor_absences d)"

definition next_student_absence_id :: "database \<Rightarrow> int" where
  "next_student_absence_id d = foldr max (map sa_id (student_absences d)) 0 + 1"

definition next_professor_absence_id :: "database \<Rightarrow> int" where
  "next_professor_absence_id d = foldr max (map pa_id (professor_absences d)) 0 + 1"

definition add_student_absence :: "app_state \<Rightarrow> StudentAbsence \<Rightarrow> app_state" where
  "add_student_absence st a =
     st\<lparr>db := (db st)\<lparr>student_absences := student_absences (db st) @ [a]\<rparr>\<rparr>"

definition add_professor_absence :: "app_state \<Rightarrow> ProfessorAbsence \<Rightarrow> app_state" where
  "add_professor_absence st a =
     st\<lparr>db := (db st)\<lparr>professor_absences := professor_absences (db st) @ [a]\<rparr>\<rparr>"

section \<open>JSON API (routes/api.py)\<close>

text \<open>
  The body of \<open>POST /absences/students\<close> with its fields at the types the route expects; a
  field that is absent is \<open>None\<close>, and the request data is \<open>None\<close> when \<open>request.get_json()\<close>
  is empty. A response is \<open>success_response(data, message, status_code)\<close> or
  \<open>error_response(message, error_type, status_code)\<close>; the data of a created absence are its
  \<open>id\<close>, \<open>total_hours\<close>, \<open>threshold_status\<close> and \<open>notification_sent\<close>.
\<close>

record absence_json =
  aj_student_id :: "int option"
  aj_module_id :: "int option"
  aj_date :: "string option"
  aj_hours :: "rat option"
  aj_reason :: "string option"
  aj_is_justified :: "bool option"

datatype api_data =
    AbsenceCreated int rat string "string option"
  | JustifiedToggled bool
  | NoData

datatype api_response =
    SuccessResponse api_data string int
  | ErrorResponse string string int

definition success_response :: "api_data \<Rightarrow> string \<Rightarrow> int \<Rightarrow> api_response" where
  "success_response data msg code = SuccessResponse data msg code"

definition error_response :: "string \<Rightarrow> string \<Rightarrow> int \<Rightarrow> api_response" where
  "error_response msg error_type code = ErrorResponse msg error_type code"

text \<open>
  \<open>create_student_absence\<close>, from the commit on: the totals are read back from the database,
  the status decides which email is attempted, and an exception of the email call is logged
  inside the inner \<open>try\<close>. The division for the percentage is outside the inner \<open>try\<close>: its
  exception reaches the outer handler, which logs it and answers with status 500.
\<close>

definition api_notify ::
  "mailer \<Rightarrow> app_state \<Rightarrow> StudentProfile \<Rightarrow> Module \<Rightarrow> int \<Rightarrow> StudentAbsence
   \<Rightarrow> app_state \<times> api_response" where
  "api_notify mail st student module' module_id absence =
     (let total_hours =
            student_get_total_absence_hours (db st) (sp_id student) (Some module_id) False;
          status = check_threshold_status (db st) (sp_id student) module_id
      in if status = ''warning'' then
           (case py_truediv total_hours (absence_threshold module') of
              Inl e \<Rightarrow>
                (logger_error st (''Error creating absence: '' @ str_of_error e),
                 error_response (str_of_error e) ''DatabaseError'' 500)
            | Inr q \<Rightarrow>
                (let percentage = q * 100
                 in case send_threshold_warning mail st (sp_user_id student) (m_name module')
                           total_hours (absence_threshold module') (py_round percentage) of
                      Inr st' \<Rightarrow>
                        (st', success_response
                                (AbsenceCreated (sa_id absence) total_hours status (Some ''warning''))
                                ''Absence enregistree'' 201)
                    | Inl e \<Rightarrow>
                        (logger_error st (''Failed to send warning: '' @ e),
                         success_response (AbsenceCreated (sa_id absence) total_hours status None)
                           ''Absence enregistree'' 201)))
         else if status = ''exceeded'' then
           (case send_threshold_exceeded mail st (sp_user_id student) (m_name module')
                   total_hours (absence_threshold module') of
              Inr st' \<Rightarrow>
                (st', success_response
                        (AbsenceCreated (sa_id absence) total_hours status (Some ''exceeded''))
                        ''Absence enregistree'' 201)
            | Inl e \<Rightarrow>
                (logger_error st (''Failed to send exceeded: '' @ e),
                 success_response (AbsenceCreated (sa_id absence) total_hours status None)
                   ''Absence enregistree'' 201))
         else (st, success_response (AbsenceCreated (sa_id absence) total_hours status None)
                     ''Absence enregistree'' 201))"

text \<open>
  \<open>create_student_absence\<close>, from the lookups to the commit, for a body whose four required
  fields are truthy. \<open>strptime\<close> is \<open>datetime.strptime(s, '%Y-%m-%d').date()\<close>, \<open>None\<close> where
  it raises \<open>ValueError\<close>.
\<close>

definition api_create_checked ::
  "(string \<Rightarrow> date option) \<Rightarrow> mailer \<Rightarrow> int \<Rightarrow> app_state \<Rightarrow> absence_json
   \<Rightarrow> int \<Rightarrow> int \<Rightarrow> string \<Rightarrow> rat \<Rightarrow> app_state \<times> api_response" where
  "api_create_checked strptime mail current_user_id st data student_id module_id date_str hours =
     (case StudentProfile_query_get (db st) student_id of
        None \<Rightarrow> (st, error_response ''Etudiant non trouve'' ''NotFoundError'' 404)
      | Some student \<Rightarrow>
     (case Module_query_get (db st) module_id of
        None \<Rightarrow> (st, error_response ''Module non trouve'' ''NotFoundError'' 404)
      | Some module' \<Rightarrow>
     (case strptime date_str of
        None \<Rightarrow> (st, error_response ''Format de date invalide (YYYY-MM-DD)'' ''ValidationError'' 400)
      | Some absence_date \<Rightarrow>
     (case existing_student_absence (db st) student_id module_id absence_date of
        Some existing \<Rightarrow> (st, error_response ''Cette absence existe deja'' ''DuplicateError'' 409)
      | None \<Rightarrow>
          (let absence =
                 \<lparr>sa_id = next_student_absence_id (db st),
                  sa_student_id = student_id,
                  sa_module_id = module_id,
                  sa_date = absence_date,
                  sa_hours = hours,
                  sa_reason = aj_reason data,
                  sa_is_justified = (case aj_is_justified data of None \<Rightarrow> False | Some b \<Rightarrow> b),
                  sa_recorded_by_id = current_user_id\<rparr>;
               st' = add_student_absence st absence
           in api_notify mail st' student module' module_id absence)))))"

text \<open>\<open>create_student_absence\<close>: the checks \<open>if not data\<close> and \<open>if not all([...])\<close> first.\<close>

definition api_create_student_absence ::
  "(string \<Rightarrow> date option) \<Rightarrow> mailer \<Rightarrow> int \<Rightarrow> app_state \<Rightarrow> absence_json option
   \<Rightarrow> app_state \<times> api_response" where
  "api_create_student_absence strptime mail current_user_id st request_json =
     (case request_json of
        None \<Rightarrow> (st, error_response ''Donnees requises'' ''ValidationError'' 400)
      | Some data \<Rightarrow>
     (case aj_student_id data of
        None \<Rightarrow> (st, error_response ''Tous les champs sont requis'' ''ValidationError'' 400)
      | Some student_id \<Rightarrow>
     (case aj_module_id data of
        None \<Rightarrow> (st, error_response ''Tous les champs sont requis'' ''ValidationError'' 400)
      | Some module_id \<Rightarrow>
     (case aj_date data of
        None \<Rightarrow> (st, error_response ''Tous les champs sont requis'' ''ValidationError'' 400)
      | Some date_str \<Rightarrow>
     (case aj_hours data of
        None \<Rightarrow> (st, error_response ''Tous les champs sont requis'' ''ValidationError'' 400)
      | Some hours \<Rightarrow>
          if student_id = 0 \<or> module_id = 0 \<or> date_str = [] \<or> hours = 0
          then (st, error_response ''Tous les champs sont requis'' ''ValidationError'' 400)
          else api_create_checked strptime mail current_user_id st data
                 student_id module_id date_str hours)))))"

text \<open>\<open>toggle_student_absence_justified\<close> and \<open>delete_student_absence\<close> of the API.\<close>

definition api_toggle_student_absence_justified ::
  "app_state \<Rightarrow> int \<Rightarrow> app_state \<times> api_response" where
  "api_toggle_student_absence_justified st absence_id =
     (case find (\<lambda>a. sa_id a = absence_id) (student_absences (db st)) of
        None \<Rightarrow> (st, error_response ''Absence non trouvee'' ''NotFoundError'' 404)
      | Some absence \<Rightarrow>
          (let toggled = \<not> sa_is_justified absence;
               rows = map (\<lambda>a. if sa_id a = absence_id then a\<lparr>sa_is_justified := toggled\<rparr> else a)
                        (student_absences (db st))
           in (st\<lparr>db := (db st)\<lparr>student_absences := rows\<rparr>\<rparr>,
               success_response (JustifiedToggled toggled)
                 (if toggled then ''Absence justifiee'' else ''Absence non justifiee'') 200)))"

definition api_delete_student_absence :: "app_state \<Rightarrow> int \<Rightarrow> app_state \<times> api_response" where
  "api_delete_student_absence st absence_id =
     (case find (\<lambda>a. sa_id a = absence_id) (student_absences (db st)) of
        None \<Rightarrow> (st, error_response ''Absence non trouvee'' ''NotFoundError'' 404)
      | Some absence \<Rightarrow>
          (st\<lparr>db := (db st)\<lparr>student_absences :=
                   filter (\<lambda>a. sa_id a \<noteq> absence_id) (student_absences (db st))\<rparr>\<rparr>,
           success_response NoData ''Absence supprimee'' 200))"

section \<open>Web forms (forms.py, routes/admin.py)\<close>

text \<open>
  The submitted forms with their fields after coercion (\<open>None\<close> where a field is missing or
  does not coerce). \<open>validate_on_submit\<close> holds for a POST request whose fields pass their
  validators: \<open>DataRequired\<close> (a truthy value), the choices of a \<open>SelectField\<close> (the students,
  the active modules, the professors), \<open>validate_future_date\<close>, \<open>NumberRange(min=0.5, max=12)\<close>
  and, for the reason, \<open>Optional()\<close> before \<open>Length(max=255)\<close>; it yields the validated
  values.

  \<open>Optional()\<close> ends the validation of the field without an error when the submitted text
  is missing or \<open>strip()\<close> leaves nothing of it, so that \<open>Length\<close> is checked only for a
  reason that holds a character other than white space. A string is the list of its code
  points, taken below 256; \<open>py_isspace\<close> holds for those that \<open>str.strip()\<close> removes.
\<close>

definition py_isspace :: "char \<Rightarrow> bool" where
  "py_isspace c =
     (of_char c \<in> {9, 10, 11, 12, 13, 28, 29, 30, 31, 32, 133, 160 :: nat})"

definition reason_validates :: "string \<Rightarrow> bool" where
  "reason_validates reason =
     (if list_all py_isspace reason then True else length reason \<le> 255)"

datatype http_method = GET | POST

record StudentAbsenceForm =
  form_student_id :: "int option"
  form_module_id :: "int option"
  form_date :: "date option"
  form_hours :: "rat option"
  form_reason :: string
  form_is_justified :: bool

record ProfessorAbsenceForm =
  pform_professor_id :: "int option"
  pform_date :: "date option"
  pform_hours :: "rat option"
  pform_reason :: string
  pform_is_justified :: bool

definition StudentAbsenceForm_validate_on_submit ::
  "date \<Rightarrow> database \<Rightarrow> http_method \<Rightarrow> StudentAbsenceForm \<Rightarrow> (int \<times> int \<times> date \<times> rat) option" where
  "StudentAbsenceForm_validate_on_submit today d request_method form =
     (case form_student_id form of None \<Rightarrow> None | Some student_id \<Rightarrow>
     (case form_module_id form of None \<Rightarrow> None | Some module_id \<Rightarrow>
     (case form_date form of None \<Rightarrow> None | Some day \<Rightarrow>
     (case form_hours form of None \<Rightarrow> None | Some hours \<Rightarrow>
        if request_method = POST
           \<and> student_id \<noteq> 0 \<and> student_id \<in> set (map sp_id (students d))
           \<and> module_id \<noteq> 0 \<and> module_id \<in> set (map m_id (filter m_is_active (modules d)))
           \<and> day \<le> today
           \<and> hours \<noteq> 0 \<and> 0.5 \<le> hours \<and> hours \<le> 12
           \<and> reason_validates (form_reason form)
        then Some (student_id, module_id, day, hours) else None))))"

definition ProfessorAbsenceForm_validate_on_submit ::
  "date \<Rightarrow> database \<Rightarrow> http_method \<Rightarrow> ProfessorAbsenceForm \<Rightarrow> (int \<times> date \<times> rat) option" where
  "ProfessorAbsenceForm_validate_on_submit today d request_method form =
     (case pform_professor_id form of None \<Rightarrow> None | Some professor_id \<Rightarrow>
     (case pform_date form of None \<Rightarrow> None | Some day \<Rightarrow>
     (case pform_hours form of None \<Rightarrow> None | Some hours \<Rightarrow>
        if request_method = POST
           \<and> professor_id \<noteq> 0 \<and> professor_id \<in> set (map pp_id (professors d))
           \<and> day \<le> today
           \<and> hours \<noteq> 0 \<and> 0.5 \<le> hours \<and> hours \<le> 12
           \<and> reason_validates (pform_reason form)
        then Some (professor_id, day, hours) else None)))"

text \<open>
  The outcome of a view: the state, the messages flashed (text and category), and the
  response, or the exception that leaves the view.
\<close>

datatype web_response = RenderTemplate string | RedirectTo string

type_synonym view_result = "app_state \<times> (string \<times> string) list \<times> (py_error + web_response)"

text \<open>
  \<open>create_student_absence\<close> of the admin pages, from the commit on. Here too the division
  for the percentage stands outside the \<open>try\<close> around the email call.
\<close>

definition admin_notify :: "mailer \<Rightarrow> app_state \<Rightarrow> int \<Rightarrow> int \<Rightarrow> view_result" where
  "admin_notify mail st student_id module_id =
     (case StudentProfile_query_get (db st) student_id of
        None \<Rightarrow> (st, [], Inl AttributeError)
      | Some student \<Rightarrow>
     (case Module_query_get (db st) module_id of
        None \<Rightarrow> (st, [], Inl AttributeError)
      | Some module' \<Rightarrow>
          (let total_hours =
                 student_get_total_absence_hours (db st) (sp_id student) (Some (m_id module')) False;
               status = check_threshold_status (db st) (sp_id student) (m_id module');
               done = ([(''Absence enregistree avec succes!'', ''success'')],
                       Inr (RedirectTo ''admin.list_student_absences''))
           in if status = ''warning'' then
                (case py_truediv total_hours (absence_threshold module') of
                   Inl e \<Rightarrow> (st, [], Inl e)
                 | Inr q \<Rightarrow>
                     (let percentage = q * 100
                      in case send_threshold_warning mail st (sp_user_id student) (m_name module')
                                total_hours (absence_threshold module') (py_round percentage) of
                           Inr st' \<Rightarrow> (st', done)
                         | Inl e \<Rightarrow>
                             (logger_error st (''Failed to send warning email: '' @ e), done)))
              else if status = ''exceeded'' then
                (case send_threshold_exceeded mail st (sp_user_id student) (m_name module')
                        total_hours (absence_threshold module') of
                   Inr st' \<Rightarrow> (st', done)
                 | Inl e \<Rightarrow> (logger_error st (''Failed to send exceeded email: '' @ e), done))
              else (st, done))))"

text \<open>\<open>create_student_absence\<close> of the admin pages.\<close>

definition admin_create_student_absence ::
  "date \<Rightarrow> mailer \<Rightarrow> int \<Rightarrow> app_state \<Rightarrow> http_method \<Rightarrow> StudentAbsenceForm \<Rightarrow> view_result" where
  "admin_create_student_absence today mail current_user_id st request_method form =
     (case StudentAbsenceForm_validate_on_submit today (db st) request_method form of
        None \<Rightarrow> (st, [], Inr (RenderTemplate ''admin/absences/create_student.html''))
      | Some (student_id, module_id, day, hours) \<Rightarrow>
     (case existing_student_absence (db st) student_id module_id day of
        Some existing \<Rightarrow>
          (st, [(''Cette absence a deja ete enregistree.'', ''danger'')],
           Inr (RenderTemplate ''admin/absences/create_student.html''))
      | None \<Rightarrow>
          (let absence =
                 \<lparr>sa_id = next_student_absence_id (db st),
                  sa_student_id = student_id,
                  sa_module_id = module_id,
                  sa_date = day,
                  sa_hours = hours,
                  sa_reason = Some (form_reason form),
                  sa_is_justified = form_is_justified form,
                  sa_recorded_by_id = current_user_id\<rparr>;
               st' = add_student_absence st absence
           in admin_notify mail st' student_id module_id)))"

text \<open>\<open>create_professor_absence\<close> of the admin pages.\<close>

definition admin_create_professor_absence ::
  "date \<Rightarrow> int \<Rightarrow> app_state \<Rightarrow> http_method \<Rightarrow> ProfessorAbsenceForm \<Rightarrow> view_result" where
  "admin_create_professor_absence today current_user_id st request_method form =
     (case ProfessorAbsenceForm_validate_on_submit today (db st) request_method form of
        None \<Rightarrow> (st, [], Inr (RenderTemplate ''admin/absences/create_professor.html''))
      | Some (professor_id, day, hours) \<Rightarrow>
     (case existing_professor_absence (db st) professor_id day of
        Some existing \<Rightarrow>
          (st, [(''Cette absence a deja ete enregistree.'', ''danger'')],
           Inr (RenderTemplate ''admin/absences/create_professor.html''))
      | None \<Rightarrow>
          (let absence =
                 \<lparr>pa_id = next_professor_absence_id (db st),
                  pa_professor_id = professor_id,
                  pa_date = day,
                  pa_hours = hours,
                  pa_reason = Some (pform_reason form),
                  pa_is_justified = pform_is_justified form,
                  pa_recorded_by_id = current_user_id\<rparr>
           in (add_professor_absence st absence,
               [(''Absence enregistree avec succes!'', ''success'')],
               Inr (RedirectTo ''admin.list_professor_absences'')))))"

section \<open>Specification-level notions\<close>

text \<open>
  The order \<open>ok < warning < exceeded\<close> on the status values, as a rank.
\<close>

definition status_rank :: "string \<Rightarrow> nat" where
  "status_rank s = (if s = ''ok'' then 0 else if s = ''warning'' then 1 else 2)"

text \<open>
  The total of the specification, in its words: the sum of \<open>hours\<close> over the absence records
  of the student, restricted to the module when a module filter is given, without the
  justified records unless they are counted. The professor's total has no module filter.
\<close>

definition spec_student_total :: "database \<Rightarrow> int \<Rightarrow> int option \<Rightarrow> bool \<Rightarrow> rat" where
  "spec_student_total d student module_filter count_justified =
     sum_list (map sa_hours
       (filter (\<lambda>a. sa_student_id a = student
                    \<and> (case module_filter of None \<Rightarrow> True | Some k \<Rightarrow> sa_module_id a = k)
                    \<and> (if count_justified then True else \<not> sa_is_justified a))
          (student_absences d)))"

definition spec_professor_total :: "database \<Rightarrow> int \<Rightarrow> bool \<Rightarrow> rat" where
  "spec_professor_total d professor count_justified =
     sum_list (map pa_hours
       (filter (\<lambda>a. pa_professor_id a = professor
                    \<and> (if count_justified then True else \<not> pa_is_justified a))
          (professor_absences d)))"

text \<open>
  The emails one accepted creation is expected to hand over, decided by the status read
  back after the insertion alone: the warning email for \<open>warning\<close>, the exceeded email for
  \<open>exceeded\<close>, none for \<open>ok\<close>.
\<close>

definition expected_notifications ::
  "database \<Rightarrow> StudentProfile \<Rightarrow> Module \<Rightarrow> int \<Rightarrow> notification list" where
  "expected_notifications d student module' module_id =
     (let total_hours = student_get_total_absence_hours d (sp_id student) (Some module_id) False;
          status = check_threshold_status d (sp_id student) module_id
      in if status = ''warning''
         then [ThresholdWarning (sp_user_id student) (m_name module') total_hours
                 (absence_threshold module')
                 (py_round (total_hours / absence_threshold module' * 100))]
         else if status = ''exceeded''
         then [ThresholdExceeded (sp_user_id student) (m_name module') total_hours
                 (absence_threshold module')]
         else [])"

section \<open>Example data\<close>

text \<open>
  One student, one professor, a module with the default threshold of 10 hours and a module
  whose threshold is 0, which the module form accepts (0 hours and 0 minutes).
\<close>

definition maths :: Module where
  "maths = \<lparr>m_id = 1, m_code = ''M1'', m_name = ''Maths'', absence_threshold = 10,
            m_is_active = True\<rparr>"

definition sport :: Module where
  "sport = \<lparr>m_id = 2, m_code = ''M2'', m_name = ''Sport'', absence_threshold = 0,
            m_is_active = True\<rparr>"

definition alice :: StudentProfile where
  "alice = \<lparr>sp_id = 1, sp_user_id = 7, sp_last_name = ''Martin''\<rparr>"

definition absence_row :: "int \<Rightarrow> int \<Rightarrow> date \<Rightarrow> rat \<Rightarrow> bool \<Rightarrow> StudentAbsence" where
  "absence_row k module_id day hours justified =
     \<lparr>sa_id = k, sa_student_id = 1, sa_module_id = module_id, sa_date = day, sa_hours = hours,
      sa_reason = None, sa_is_justified = justified, sa_recorded_by_id = 3\<rparr>"

definition professor_row :: "int \<Rightarrow> date \<Rightarrow> rat \<Rightarrow> bool \<Rightarrow> ProfessorAbsence" where
  "professor_row k day hours justified =
     \<lparr>pa_id = k, pa_professor_id = 1, pa_date = day, pa_hours = hours,
      pa_reason = None, pa_is_justified = justified, pa_recorded_by_id = 3\<rparr>"

definition school :: "StudentAbsence list \<Rightarrow> database" where
  "school rows =
     \<lparr>students = [alice],
      professors = [\<lparr>pp_id = 1, pp_user_id = 8\<rparr>],
      modules = [maths, sport],
      student_absences = rows,
      professor_absences = [professor_row 1 100 4 False, professor_row 2 101 8 True]\<rparr>"

definition running :: "StudentAbsence list \<Rightarrow> app_state" where
  "running rows = \<lparr>db = school rows, outbox = [], error_log = []\<rparr>"

text \<open>
  Two mail environments (every call returns; every call raises), a date parser that knows
  two days of January 2024 by their ordinals, and the requests and forms of the examples.
  Today is 2024-01-15, the administrator is user 3.
\<close>

definition mail_up :: mailer where
  "mail_up = (\<lambda>n. None)"

definition mail_down :: mailer where
  "mail_down = (\<lambda>n. Some ''Connection refused'')"

definition calendar :: "string \<Rightarrow> date option" where
  "calendar s = (if s = ''2024-01-05'' then Some 738890
                 else if s = ''2024-01-08'' then Some 738893 else None)"

definition request_body :: "string \<Rightarrow> rat \<Rightarrow> absence_json" where
  "request_body date_str hours =
     \<lparr>aj_student_id = Some 1, aj_module_id = Some 1, aj_date = Some date_str,
      aj_hours = Some hours, aj_reason = None, aj_is_justified = None\<rparr>"

definition student_form :: "date \<Rightarrow> rat \<Rightarrow> StudentAbsenceForm" where
  "student_form day hours =
     \<lparr>form_student_id = Some 1, form_module_id = Some 1, form_date = Some day,
      form_hours = Some hours, form_reason = [], form_is_justified = False\<rparr>"

definition professor_form :: "date \<Rightarrow> rat \<Rightarrow> ProfessorAbsenceForm" where
  "professor_form day hours =
     \<lparr>pform_professor_id = Some 1, pform_date = Some day, pform_hours = Some hours,
      pform_reason = [], pform_is_justified = False\<rparr>"

text \<open>
  Two absences recorded one after the other through the admin form, for the same student
  and module: 5 hours on 2024-01-05, then 1 hour on 2024-01-08.
\<close>

definition after_first_creation :: app_state where
  "after_first_creation =
     fst (admin_create_student_absence 738900 mail_up 3 (running []) POST
            (student_form 738890 5))"

definition after_second_creation :: app_state where
  "after_second_creation =
     fst (admin_create_student_absence 738900 mail_up 3 after_first_creation POST
            (student_form 738893 1))"

section \<open>Facts about the example data\<close>

lemma school_maths: "Module_query_get (school rows) 1 = Some maths"
  by (simp add: Module_query_get_def school_def maths_def)

lemma school_sport: "Module_query_get (school rows) 2 = Some sport"
  by (simp add: Module_query_get_def school_def maths_def sport_def)

lemma school_no_module_9: "Module_query_get (school rows) 9 = None"
  by (simp add: Module_query_get_def school_def maths_def sport_def)

lemma school_alice: "StudentProfile_query_get (school rows) 1 = Some alice"
  by (simp add: StudentProfile_query_get_def school_def alice_def)

lemma maths_threshold: "absence_threshold maths = 10"
  by (simp add: maths_def)

lemma sport_threshold: "absence_threshold sport = 0"
  by (simp add: sport_def)

lemma total_five_hours:
  "student_get_total_absence_hours (school [absence_row 1 1 738890 5 False]) 1 (Some 1) False = 5"
  by (simp add: student_get_total_absence_hours_def school_def absence_row_def)

lemma total_ten_hours:
  "student_get_total_absence_hours
     (school [absence_row 1 1 738890 5 False, absence_row 2 1 738893 5 False]) 1 (Some 1) False = 10"
  by (simp add: student_get_total_absence_hours_def school_def absence_row_def)

lemma total_no_absence:
  "student_get_total_absence_hours (school []) 1 (Some 2) False = 0"
  by (simp add: student_get_total_absence_hours_def school_def)

section \<open>Threshold evaluator\<close>

text \<open>
  C1. For a module that exists, \<open>check_threshold_status\<close> returns \<open>exceeded\<close> exactly when
  the total of unjustified hours of the student in the module reaches the module's
  threshold, \<open>warning\<close> exactly when the total is at least half the threshold and below it,
  and \<open>ok\<close> exactly in the remaining case. With threshold 10, a total of 5 gives \<open>warning\<close>
  and a total of 10 gives \<open>exceeded\<close>.
\<close>

theorem check_threshold_status_classes:
  assumes "Module_query_get d module_id = Some m"
  shows "(check_threshold_status d self_id module_id = ''exceeded'' \<longleftrightarrow>
            student_get_total_absence_hours d self_id (Some module_id) False \<ge> absence_threshold m)
       \<and> (check_threshold_status d self_id module_id = ''warning'' \<longleftrightarrow>
            absence_threshold m * 0.5 \<le> student_get_total_absence_hours d self_id (Some module_id) False
            \<and> student_get_total_absence_hours d self_id (Some module_id) False < absence_threshold m)
       \<and> (check_threshold_status d self_id module_id = ''ok'' \<longleftrightarrow>
            \<not> student_get_total_absence_hours d self_id (Some module_id) False \<ge> absence_threshold m
            \<and> \<not> (absence_threshold m * 0.5
                    \<le> student_get_total_absence_hours d self_id (Some module_id) False
                  \<and> student_get_total_absence_hours d self_id (Some module_id) False
                    < absence_threshold m))
       \<and> (absence_threshold m = 10
            \<and> student_get_total_absence_hours d self_id (Some module_id) False = 5
            \<longrightarrow> check_threshold_status d self_id module_id = ''warning'')
       \<and> (absence_threshold m = 10
            \<and> student_get_total_absence_hours d self_id (Some module_id) False = 10
            \<longrightarrow> check_threshold_status d self_id module_id = ''exceeded'')"
  using assms by (auto simp: check_threshold_status_def Let_def)

text \<open>
  The examples of C1 on the school: one absence of 5 hours in the module of threshold 10
  gives \<open>warning\<close>, two absences of 5 hours give \<open>exceeded\<close>.
\<close>

theorem check_threshold_status_classes_witness:
  "Module_query_get (school [absence_row 1 1 738890 5 False]) 1 = Some maths
   \<and> check_threshold_status (school [absence_row 1 1 738890 5 False]) 1 1 = ''warning''
   \<and> Module_query_get
        (school [absence_row 1 1 738890 5 False, absence_row 2 1 738893 5 False]) 1 = Some maths
   \<and> check_threshold_status
        (school [absence_row 1 1 738890 5 False, absence_row 2 1 738893 5 False]) 1 1 = ''exceeded''"
  using check_threshold_status_classes [OF school_maths, of "[absence_row 1 1 738890 5 False]" 1]
    check_threshold_status_classes [OF school_maths,
      of "[absence_row 1 1 738890 5 False, absence_row 2 1 738893 5 False]" 1]
    school_maths maths_threshold total_five_hours total_ten_hours
  by simp

text \<open>
  C2. The specification wants \<open>ok\<close> for every module whose threshold is 0. The code has no
  such case: for the student without any absence in the module of threshold 0, the total 0
  reaches the threshold 0 and the status is \<open>exceeded\<close>.
\<close>

theorem zero_threshold_status_is_exceeded:
  "Module_query_get (school []) 2 = Some sport
   \<and> absence_threshold sport = 0
   \<and> student_get_total_absence_hours (school []) 1 (Some 2) False = 0
   \<and> check_threshold_status (school []) 1 2 = ''exceeded''"
  by (simp add: check_threshold_status_def school_sport total_no_absence sport_threshold)

text \<open>
  C7. For one module row, the status is monotonic in the total of unjustified hours: a
  total that is not smaller gives a status that is not lower in the order
  \<open>ok < warning < exceeded\<close>.
\<close>

theorem threshold_status_monotone:
  assumes "Module_query_get d1 module_id = Module_query_get d2 module_id"
    and "student_get_total_absence_hours d1 s1 (Some module_id) False
         \<le> student_get_total_absence_hours d2 s2 (Some module_id) False"
  shows "status_rank (check_threshold_status d1 s1 module_id)
         \<le> status_rank (check_threshold_status d2 s2 module_id)"
  using assms
  by (auto simp: check_threshold_status_def status_rank_def Let_def split: option.splits)

text \<open>From 5 hours to 10 hours the status rises from \<open>warning\<close> to \<open>exceeded\<close>.\<close>

theorem threshold_status_monotone_witness:
  "Module_query_get (school [absence_row 1 1 738890 5 False]) 1
     = Module_query_get (school [absence_row 1 1 738890 5 False, absence_row 2 1 738893 5 False]) 1
   \<and> student_get_total_absence_hours (school [absence_row 1 1 738890 5 False]) 1 (Some 1) False
     \<le> student_get_total_absence_hours
          (school [absence_row 1 1 738890 5 False, absence_row 2 1 738893 5 False]) 1 (Some 1) False
   \<and> status_rank (check_threshold_status (school [absence_row 1 1 738890 5 False]) 1 1)
     \<le> status_rank (check_threshold_status
          (school [absence_row 1 1 738890 5 False, absence_row 2 1 738893 5 False]) 1 1)"
proof -
  have same: "Module_query_get (school [absence_row 1 1 738890 5 False]) 1
     = Module_query_get (school [absence_row 1 1 738890 5 False, absence_row 2 1 738893 5 False]) 1"
    by (simp add: school_maths)
  have le: "student_get_total_absence_hours (school [absence_row 1 1 738890 5 False]) 1 (Some 1) False
     \<le> student_get_total_absence_hours
          (school [absence_row 1 1 738890 5 False, absence_row 2 1 738893 5 False]) 1 (Some 1) False"
    by (simp add: total_five_hours total_ten_hours)
  from threshold_status_monotone [OF same le] same le show ?thesis by blast
qed

text \<open>
  C9. \<open>get_absence_rate\<close> returns 0 when the module does not exist or its threshold is 0,
  and otherwise the total of unjustified hours divided by the threshold, times 100; the
  division never raises \<open>ZeroDivisionError\<close>. \<open>check_threshold_status\<close> returns \<open>ok\<close> when
  the module does not exist.
\<close>

theorem absence_rate_guarded:
  "(Module_query_get d module_id = None \<longrightarrow>
      get_absence_rate d self_id module_id = Inr 0
      \<and> check_threshold_status d self_id module_id = ''ok'')
   \<and> (\<forall>m. Module_query_get d module_id = Some m \<and> absence_threshold m = 0 \<longrightarrow>
      get_absence_rate d self_id module_id = Inr 0)
   \<and> (\<forall>m. Module_query_get d module_id = Some m \<and> absence_threshold m \<noteq> 0 \<longrightarrow>
      get_absence_rate d self_id module_id =
        Inr ((student_get_total_absence_hours d self_id (Some module_id) False
              / absence_threshold m) * 100))
   \<and> get_absence_rate d self_id module_id \<noteq> Inl ZeroDivisionError"
  by (auto simp: get_absence_rate_def check_threshold_status_def py_truediv_def Let_def
        split: option.splits)

text \<open>
  On the school: module 9 does not exist, module 2 has threshold 0, and 5 hours in module 1
  are 50 percent of its threshold.
\<close>

theorem absence_rate_guarded_witness:
  "Module_query_get (school [absence_row 1 1 738890 5 False]) 9 = None
   \<and> get_absence_rate (school [absence_row 1 1 738890 5 False]) 1 9 = Inr 0
   \<and> check_threshold_status (school [absence_row 1 1 738890 5 False]) 1 9 = ''ok''
   \<and> Module_query_get (school [absence_row 1 1 738890 5 False]) 2 = Some sport
   \<and> absence_threshold sport = 0
   \<and> get_absence_rate (school [absence_row 1 1 738890 5 False]) 1 2 = Inr 0
   \<and> Module_query_get (school [absence_row 1 1 738890 5 False]) 1 = Some maths
   \<and> absence_threshold maths \<noteq> 0
   \<and> get_absence_rate (school [absence_row 1 1 738890 5 False]) 1 1 = Inr 50"
  using absence_rate_guarded [of "school [absence_row 1 1 738890 5 False]" 9 1]
    absence_rate_guarded [of "school [absence_row 1 1 738890 5 False]" 2 1]
    absence_rate_guarded [of "school [absence_row 1 1 738890 5 False]" 1 1]
    school_no_module_9 school_sport school_maths maths_threshold sport_threshold total_five_hours
  by simp

section \<open>Absence aggregator\<close>

text \<open>
  C6, as the specification states it, for a module filter of 0: the student has one
  unjustified absence of 2 hours in module 1 and none in a module 0, so the sum restricted
  to module 0 is 0, but \<open>get_total_absence_hours(module_id=0)\<close> skips the module filter and
  returns 2.
\<close>

theorem total_absence_hours_module_zero_counterexample:
  "student_get_total_absence_hours (school [absence_row 1 1 738890 2 False]) 1 (Some 0) False = 2
   \<and> spec_student_total (school [absence_row 1 1 738890 2 False]) 1 (Some 0) False = 0"
  by (simp add: student_get_total_absence_hours_def spec_student_total_def school_def
        absence_row_def)

text \<open>
  C6, amended. \<open>get_total_absence_hours\<close> of a student returns the sum of the hours of the
  student's absence records, restricted to the module when a module id other than 0 is
  given, without the justified records unless \<open>count_justified\<close> is set; a module id of 0
  is treated like no module filter. The professor's total is the sum of the hours of the
  professor's records, without the justified ones unless \<open>count_justified\<close> is set.
\<close>

theorem total_absence_hours_sum:
  "(module_id \<noteq> Some 0 \<longrightarrow>
      student_get_total_absence_hours d s module_id cj = spec_student_total d s module_id cj)
   \<and> student_get_total_absence_hours d s (Some 0) cj = spec_student_total d s None cj
   \<and> professor_get_total_absence_hours d p cj = spec_professor_total d p cj"
  by (auto simp: student_get_total_absence_hours_def spec_student_total_def
        professor_get_total_absence_hours_def spec_professor_total_def professor_absences_of_def
        Let_def conj_commute conj_left_commute split: option.splits
        intro!: arg_cong [where f = sum_list] arg_cong2 [where f = map] filter_cong)

text \<open>
  On the school: the student has 2 unjustified hours and 3 justified hours in module 1 and
  4 unjustified hours in module 2; the professor has 4 unjustified and 8 justified hours.
\<close>

theorem total_absence_hours_sum_witness:
  "Some (1::int) \<noteq> Some 0
   \<and> student_get_total_absence_hours
       (school [absence_row 1 1 738890 2 False, absence_row 2 1 738891 3 True,
                absence_row 3 2 738890 4 False]) 1 (Some 1) False
     = spec_student_total
       (school [absence_row 1 1 738890 2 False, absence_row 2 1 738891 3 True,
                absence_row 3 2 738890 4 False]) 1 (Some 1) False
   \<and> spec_student_total
       (school [absence_row 1 1 738890 2 False, absence_row 2 1 738891 3 True,
                absence_row 3 2 738890 4 False]) 1 (Some 1) False = 2
   \<and> student_get_total_absence_hours
       (school [absence_row 1 1 738890 2 False, absence_row 2 1 738891 3 True,
                absence_row 3 2 738890 4 False]) 1 (Some 1) True = 5
   \<and> student_get_total_absence_hours
       (school [absence_row 1 1 738890 2 False, absence_row 2 1 738891 3 True,
                absence_row 3 2 738890 4 False]) 1 None False = 6
   \<and> professor_get_total_absence_hours (school []) 1 False = 4
   \<and> professor_get_total_absence_hours (school []) 1 True = 12"
proof -
  let ?d = "school [absence_row 1 1 738890 2 False, absence_row 2 1 738891 3 True,
                    absence_row 3 2 738890 4 False]"
  have spec1: "spec_student_total ?d 1 (Some 1) False = 2"
    and spec2: "spec_student_total ?d 1 (Some 1) True = 5"
    and spec3: "spec_student_total ?d 1 None False = 6"
    by (simp_all add: spec_student_total_def school_def absence_row_def)
  have prof: "spec_professor_total (school []) 1 False = 4"
    "spec_professor_total (school []) 1 True = 12"
    by (simp_all add: spec_professor_total_def school_def professor_row_def)
  show ?thesis
    using total_absence_hours_sum [of "Some 1" ?d 1 False 1]
      total_absence_hours_sum [of "Some 1" ?d 1 True 1]
      total_absence_hours_sum [of None ?d 1 False 1]
      total_absence_hours_sum [of None "school []" 1 False 1]
      total_absence_hours_sum [of None "school []" 1 True 1]
      spec1 spec2 spec3 prof
    by simp
qed

text \<open>
  C10. A day is 8 hours in both conversions: \<open>get_total_hours\<close> is
  \<open>threshold_days * 8 + threshold_hours\<close>, and \<open>get_total_absence_days\<close> is the professor's
  total of absence hours divided by 8, so that 8 times the days are the hours again.
\<close>

theorem day_is_eight_hours:
  "get_total_hours setting = threshold_days setting * 8 + threshold_hours setting
   \<and> get_total_absence_days d p cj = professor_get_total_absence_hours d p cj / 8
   \<and> get_total_absence_days d p cj * 8 = professor_get_total_absence_hours d p cj
   \<and> get_total_hours \<lparr>threshold_days = 1, threshold_hours = 0, warning_percentage = w\<rparr> = 8"
  by (simp add: get_total_hours_def get_total_absence_days_def)

section \<open>Error envelope\<close>

text \<open>
  C8. The dictionary of every application exception, whatever its class, maps \<open>success\<close>
  to false, \<open>error\<close> to the name of the class and \<open>message\<close> to the message, and it is the
  body of the response; a subclass adds its own fields, such as \<open>field\<close>, \<open>rule\<close> or
  \<open>resource_type\<close>, when they are set.
\<close>

theorem error_envelope_shape:
  "to_dict e ''success'' = Some (JBool False)
   \<and> to_dict e ''error'' = Some (JStr (class_name e))
   \<and> to_dict e ''message'' = Some (JStr (message e))
   \<and> to_response e = (to_dict e, status_code e)
   \<and> (truthy field \<longrightarrow> to_dict (DuplicateError msg field) ''field'' = Some field)
   \<and> (truthy field \<longrightarrow> to_dict (ValidationError msg field errors) ''field'' = Some field)
   \<and> (truthy rule \<longrightarrow> to_dict (BusinessRuleError msg rule) ''rule'' = Some rule)
   \<and> (truthy resource_type \<longrightarrow>
        to_dict (NotFoundError msg resource_type resource_id) ''resource_type''
          = Some resource_type)"
  by (cases e)
    (simp_all add: to_dict_def AppException_to_dict_def BusinessRuleError_to_dict_def
       to_response_def Let_def)

text \<open>A duplicate error on the field \<open>email\<close>, and a base exception whose payload tries to
  set \<open>success\<close>.\<close>

theorem error_envelope_shape_witness:
  "truthy (JStr ''email'')
   \<and> to_dict (DuplicateError ''Cette entree existe deja.'' (JStr ''email'')) ''field''
       = Some (JStr ''email'')
   \<and> to_dict (DuplicateError ''Cette entree existe deja.'' (JStr ''email'')) ''error''
       = Some (JStr ''DuplicateError'')
   \<and> to_dict (AppException ''refused'' 400 (Some [''success'' \<mapsto> JBool True])) ''success''
       = Some (JBool False)"
  using error_envelope_shape
      [of "DuplicateError ''Cette entree existe deja.'' (JStr ''email'')" "JStr ''email''"
          "''Cette entree existe deja.''"]
    error_envelope_shape
      [of "AppException ''refused'' 400 (Some [''success'' \<mapsto> JBool True])" "JStr ''email''"]
  by simp

section \<open>Absence creation: the steps of the routes\<close>

text \<open>
  A status of \<open>warning\<close> needs a total below the threshold and at least half of it, which a
  threshold of 0 does not allow: the division for the percentage is never by zero.
\<close>

lemma warning_threshold_nonzero:
  assumes "check_threshold_status d s module_id = ''warning''"
    and "Module_query_get d module_id = Some m"
  shows "absence_threshold m \<noteq> 0"
  using assms by (auto simp: check_threshold_status_def Let_def split: if_splits)

lemma db_add_student_absence [simp]:
  "modules (db (add_student_absence st a)) = modules (db st)"
  "students (db (add_student_absence st a)) = students (db st)"
  "student_absences (db (add_student_absence st a)) = student_absences (db st) @ [a]"
  "outbox (add_student_absence st a) = outbox st"
  "error_log (add_student_absence st a) = error_log st"
  by (simp_all add: add_student_absence_def)

lemma Module_query_get_add [simp]:
  "Module_query_get (db (add_student_absence st a)) k = Module_query_get (db st) k"
  by (simp add: Module_query_get_def)

lemma StudentProfile_query_get_add [simp]:
  "StudentProfile_query_get (db (add_student_absence st a)) k = StudentProfile_query_get (db st) k"
  by (simp add: StudentProfile_query_get_def)

lemma api_notify_db: "db (fst (api_notify mail st student m module_id row)) = db st"
  by (auto simp: api_notify_def Let_def logger_error_def send_threshold_warning_def
        send_threshold_exceeded_def send_email_def split: sum.splits option.splits)

lemma api_notify_success:
  assumes "Module_query_get (db st) module_id = Some m"
  shows "\<exists>ns. snd (api_notify mail st student m module_id row) =
           SuccessResponse
             (AbsenceCreated (sa_id row)
                (student_get_total_absence_hours (db st) (sp_id student) (Some module_id) False)
                (check_threshold_status (db st) (sp_id student) module_id) ns)
             ''Absence enregistree'' 201"
proof (cases "check_threshold_status (db st) (sp_id student) module_id = ''warning''")
  case True
  then have "absence_threshold m \<noteq> 0" using assms by (rule warning_threshold_nonzero)
  with True show ?thesis
    by (auto simp: api_notify_def Let_def py_truediv_def success_response_def split: sum.splits)
next
  case False
  then show ?thesis
    by (auto simp: api_notify_def Let_def success_response_def split: sum.splits)
qed

lemma api_notify_mail_raises:
  assumes "Module_query_get (db st) module_id = Some m" and "\<forall>n. mail n \<noteq> None"
  shows "snd (api_notify mail st student m module_id row) =
           SuccessResponse
             (AbsenceCreated (sa_id row)
                (student_get_total_absence_hours (db st) (sp_id student) (Some module_id) False)
                (check_threshold_status (db st) (sp_id student) module_id) None)
             ''Absence enregistree'' 201
         \<and> outbox (fst (api_notify mail st student m module_id row)) = outbox st
         \<and> (\<exists>lines. error_log (fst (api_notify mail st student m module_id row)) = error_log st @ lines
               \<and> length lines = length (expected_notifications (db st) student m module_id))"
proof (cases "check_threshold_status (db st) (sp_id student) module_id = ''warning''")
  have [simp]: "mail n \<noteq> None" for n using assms(2) by simp
  case True
  then have "absence_threshold m \<noteq> 0" using assms(1) by (rule warning_threshold_nonzero)
  with True show ?thesis
    by (auto simp: api_notify_def Let_def py_truediv_def success_response_def logger_error_def
          send_threshold_warning_def send_email_def expected_notifications_def
          split: sum.splits option.splits)
next
  have [simp]: "mail n \<noteq> None" for n using assms(2) by simp
  case False
  then show ?thesis
    by (auto simp: api_notify_def Let_def success_response_def logger_error_def
          send_threshold_exceeded_def send_email_def expected_notifications_def
          split: sum.splits option.splits)
qed

lemma api_notify_mail_returns:
  assumes "Module_query_get (db st) module_id = Some m" and "\<forall>n. mail n = None"
  shows "outbox (fst (api_notify mail st student m module_id row)) =
           outbox st @ expected_notifications (db st) student m module_id
         \<and> error_log (fst (api_notify mail st student m module_id row)) = error_log st"
proof (cases "check_threshold_status (db st) (sp_id student) module_id = ''warning''")
  have [simp]: "mail n = None" for n using assms(2) by simp
  case True
  then have "absence_threshold m \<noteq> 0" using assms(1) by (rule warning_threshold_nonzero)
  with True show ?thesis
    by (auto simp: api_notify_def Let_def py_truediv_def success_response_def logger_error_def
          send_threshold_warning_def send_email_def expected_notifications_def
          split: sum.splits option.splits)
next
  have [simp]: "mail n = None" for n using assms(2) by simp
  case False
  then show ?thesis
    by (auto simp: api_notify_def Let_def success_response_def logger_error_def
          send_threshold_exceeded_def send_email_def expected_notifications_def
          split: sum.splits option.splits)
qed

lemma api_create_accepted:
  assumes "aj_student_id data = Some student_id" "aj_module_id data = Some module_id"
    "aj_date data = Some date_str" "aj_hours data = Some hours"
    "student_id \<noteq> 0" "module_id \<noteq> 0" "date_str \<noteq> []" "hours \<noteq> 0"
    "StudentProfile_query_get (db st) student_id = Some student"
    "Module_query_get (db st) module_id = Some m"
    "strptime date_str = Some day"
    "existing_student_absence (db st) student_id module_id day = None"
  shows "api_create_student_absence strptime mail current_user_id st (Some data) =
           api_notify mail
             (add_student_absence st
                \<lparr>sa_id = next_student_absence_id (db st), sa_student_id = student_id,
                 sa_module_id = module_id, sa_date = day, sa_hours = hours,
                 sa_reason = aj_reason data,
                 sa_is_justified = (case aj_is_justified data of None \<Rightarrow> False | Some b \<Rightarrow> b),
                 sa_recorded_by_id = current_user_id\<rparr>)
             student m module_id
             \<lparr>sa_id = next_student_absence_id (db st), sa_student_id = student_id,
                 sa_module_id = module_id, sa_date = day, sa_hours = hours,
                 sa_reason = aj_reason data,
                 sa_is_justified = (case aj_is_justified data of None \<Rightarrow> False | Some b \<Rightarrow> b),
                 sa_recorded_by_id = current_user_id\<rparr>"
  using assms by (simp add: api_create_student_absence_def api_create_checked_def Let_def)


lemma find_key_in_map:
  assumes "k \<in> set (map f xs)"
  shows "\<exists>x. find (\<lambda>x. f x = k) xs = Some x \<and> f x = k"
  using assms by (induction xs) auto

lemma student_form_validated:
  assumes "StudentAbsenceForm_validate_on_submit today d request_method form
             = Some (student_id, module_id, day, hours)"
  shows "\<exists>student m. StudentProfile_query_get d student_id = Some student \<and> sp_id student = student_id
           \<and> Module_query_get d module_id = Some m \<and> m_id m = module_id"
proof -
  from assms have s: "student_id \<in> set (map sp_id (students d))"
    and m: "module_id \<in> set (map m_id (filter m_is_active (modules d)))"
    by (auto simp: StudentAbsenceForm_validate_on_submit_def split: option.splits if_splits)
  from m have "module_id \<in> set (map m_id (modules d))" by auto
  with s show ?thesis
    using find_key_in_map [of student_id sp_id "students d"]
      find_key_in_map [of module_id m_id "modules d"]
    by (auto simp: StudentProfile_query_get_def Module_query_get_def)
qed

lemma admin_notify_done:
  assumes "StudentProfile_query_get (db st) student_id = Some student"
    and "Module_query_get (db st) module_id = Some m" and "m_id m = module_id"
  shows "snd (admin_notify mail st student_id module_id) =
           ([(''Absence enregistree avec succes!'', ''success'')],
            Inr (RedirectTo ''admin.list_student_absences''))
         \<and> db (fst (admin_notify mail st student_id module_id)) = db st"
proof (cases "check_threshold_status (db st) (sp_id student) module_id = ''warning''")
  case True
  then have "absence_threshold m \<noteq> 0" using assms(2) by (rule warning_threshold_nonzero)
  with True assms show ?thesis
    by (auto simp: admin_notify_def Let_def py_truediv_def logger_error_def
          send_threshold_warning_def send_email_def split: sum.splits option.splits)
next
  case False
  with assms show ?thesis
    by (auto simp: admin_notify_def Let_def logger_error_def
          send_threshold_exceeded_def send_email_def split: sum.splits option.splits)
qed

lemma admin_notify_mail_raises:
  assumes "StudentProfile_query_get (db st) student_id = Some student"
    and "Module_query_get (db st) module_id = Some m" and "m_id m = module_id"
    and "\<forall>n. mail n \<noteq> None"
  shows "outbox (fst (admin_notify mail st student_id module_id)) = outbox st
         \<and> (\<exists>lines. error_log (fst (admin_notify mail st student_id module_id)) = error_log st @ lines
               \<and> length lines = length (expected_notifications (db st) student m module_id))"
proof (cases "check_threshold_status (db st) (sp_id student) module_id = ''warning''")
  have [simp]: "mail n \<noteq> None" for n using assms(4) by simp
  case True
  then have "absence_threshold m \<noteq> 0" using assms(2) by (rule warning_threshold_nonzero)
  with True assms(1-3) show ?thesis
    by (auto simp: admin_notify_def Let_def py_truediv_def logger_error_def
          send_threshold_warning_def send_email_def expected_notifications_def
          split: sum.splits option.splits)
next
  have [simp]: "mail n \<noteq> None" for n using assms(4) by simp
  case False
  with assms(1-3) show ?thesis
    by (auto simp: admin_notify_def Let_def logger_error_def
          send_threshold_exceeded_def send_email_def expected_notifications_def
          split: sum.splits option.splits)
qed

lemma admin_notify_mail_returns:
  assumes "StudentProfile_query_get (db st) student_id = Some student"
    and "Module_query_get (db st) module_id = Some m" and "m_id m = module_id"
    and "\<forall>n. mail n = None"
  shows "outbox (fst (admin_notify mail st student_id module_id)) =
           outbox st @ expected_notifications (db st) student m module_id
         \<and> error_log (fst (admin_notify mail st student_id module_id)) = error_log st"
proof (cases "check_threshold_status (db st) (sp_id student) module_id = ''warning''")
  have [simp]: "mail n = None" for n using assms(4) by simp
  case True
  then have "absence_threshold m \<noteq> 0" using assms(2) by (rule warning_threshold_nonzero)
  with True assms(1-3) show ?thesis
    by (auto simp: admin_notify_def Let_def py_truediv_def logger_error_def
          send_threshold_warning_def send_email_def expected_notifications_def
          split: sum.splits option.splits)
next
  have [simp]: "mail n = None" for n using assms(4) by simp
  case False
  with assms(1-3) show ?thesis
    by (auto simp: admin_notify_def Let_def logger_error_def
          send_threshold_exceeded_def send_email_def expected_notifications_def
          split: sum.splits option.splits)
qed

lemma admin_create_accepted:
  assumes "StudentAbsenceForm_validate_on_submit today (db st) request_method form
             = Some (student_id, module_id, day, hours)"
    and "existing_student_absence (db st) student_id module_id day = None"
  shows "admin_create_student_absence today mail current_user_id st request_method form =
           admin_notify mail
             (add_student_absence st
                \<lparr>sa_id = next_student_absence_id (db st), sa_student_id = student_id,
                 sa_module_id = module_id, sa_date = day, sa_hours = hours,
                 sa_reason = Some (form_reason form),
                 sa_is_justified = form_is_justified form,
                 sa_recorded_by_id = current_user_id\<rparr>)
             student_id module_id"
  using assms by (simp add: admin_create_student_absence_def Let_def)

lemma api_duplicate:
  assumes "aj_student_id data = Some student_id" "aj_module_id data = Some module_id"
    "aj_date data = Some date_str" "strptime date_str = Some day"
    "existing_student_absence (db st) student_id module_id day \<noteq> None"
  shows "fst (api_create_student_absence strptime mail current_user_id st (Some data)) = st
    \<and> (\<exists>msg kind code. snd (api_create_student_absence strptime mail current_user_id st (Some data))
           = ErrorResponse msg kind code)
    \<and> (aj_hours data = Some hours \<and> hours \<noteq> 0 \<and> student_id \<noteq> 0 \<and> module_id \<noteq> 0 \<and> date_str \<noteq> []
         \<and> StudentProfile_query_get (db st) student_id \<noteq> None
         \<and> Module_query_get (db st) module_id \<noteq> None
         \<longrightarrow> snd (api_create_student_absence strptime mail current_user_id st (Some data))
           = ErrorResponse ''Cette absence existe deja'' ''DuplicateError'' 409)"
  using assms
  by (auto simp: api_create_student_absence_def api_create_checked_def error_response_def
        split: option.splits)

lemma admin_duplicate:
  assumes "form_student_id form = Some student_id" "form_module_id form = Some module_id"
    "form_date form = Some day"
    "existing_student_absence (db st) student_id module_id day \<noteq> None"
  shows "fst (admin_create_student_absence today mail current_user_id st request_method form) = st
    \<and> snd (snd (admin_create_student_absence today mail current_user_id st request_method form))
           = Inr (RenderTemplate ''admin/absences/create_student.html'')
    \<and> (StudentAbsenceForm_validate_on_submit today (db st) request_method form \<noteq> None
         \<longrightarrow> fst (snd (admin_create_student_absence today mail current_user_id st request_method form))
           = [(''Cette absence a deja ete enregistree.'', ''danger'')])"
  using assms
  by (auto simp: admin_create_student_absence_def StudentAbsenceForm_validate_on_submit_def
        split: option.splits if_splits)

lemma professor_duplicate:
  assumes "pform_professor_id form = Some professor_id" "pform_date form = Some day"
    "existing_professor_absence (db st) professor_id day \<noteq> None"
  shows "fst (admin_create_professor_absence today current_user_id st request_method form) = st
    \<and> snd (snd (admin_create_professor_absence today current_user_id st request_method form))
           = Inr (RenderTemplate ''admin/absences/create_professor.html'')
    \<and> (ProfessorAbsenceForm_validate_on_submit today (db st) request_method form \<noteq> None
         \<longrightarrow> fst (snd (admin_create_professor_absence today current_user_id st request_method form))
           = [(''Cette absence a deja ete enregistree.'', ''danger'')])"
  using assms
  by (auto simp: admin_create_professor_absence_def ProfessorAbsenceForm_validate_on_submit_def
        split: option.splits if_splits)

text \<open>
  The duplicate lookups find a row exactly when a row with the key is stored.
\<close>

lemma existing_student_absence_stored:
  "(existing_student_absence d student_id module_id day \<noteq> None)
     = (\<exists>a. a \<in> set (student_absences d) \<and> sa_student_id a = student_id
             \<and> sa_module_id a = module_id \<and> sa_date a = day)"
  by (auto simp: existing_student_absence_def find_None_iff)

lemma existing_professor_absence_stored:
  "(existing_professor_absence d professor_id day \<noteq> None)
     = (\<exists>a. a \<in> set (professor_absences d) \<and> pa_professor_id a = professor_id
             \<and> pa_date a = day)"
  by (auto simp: existing_professor_absence_def find_None_iff)

text \<open>
  A creation that passes the validation and the duplicate check appends one row with the
  submitted values, answers with success, and hands over or logs what the status after the
  insertion asks for.
\<close>

lemma api_creation_persists:
  assumes "aj_student_id data = Some student_id" "aj_module_id data = Some module_id"
    "aj_date data = Some date_str" "aj_hours data = Some hours"
    "student_id \<noteq> 0" "module_id \<noteq> 0" "date_str \<noteq> []" "hours \<noteq> 0"
    "StudentProfile_query_get (db st) student_id = Some student"
    "Module_query_get (db st) module_id = Some m"
    "strptime date_str = Some day"
    "existing_student_absence (db st) student_id module_id day = None"
  shows "(\<exists>a. student_absences
                (db (fst (api_create_student_absence strptime mail current_user_id st (Some data))))
              = student_absences (db st) @ [a]
            \<and> sa_student_id a = student_id \<and> sa_module_id a = module_id
            \<and> sa_date a = day \<and> sa_hours a = hours)
       \<and> (\<exists>ident total status ns.
             snd (api_create_student_absence strptime mail current_user_id st (Some data))
               = SuccessResponse (AbsenceCreated ident total status ns) ''Absence enregistree'' 201)
       \<and> ((\<forall>n. mail n \<noteq> None) \<longrightarrow>
             (\<exists>ident total status.
                snd (api_create_student_absence strptime mail current_user_id st (Some data))
                  = SuccessResponse (AbsenceCreated ident total status None)
                      ''Absence enregistree'' 201)
           \<and> outbox (fst (api_create_student_absence strptime mail current_user_id st (Some data)))
               = outbox st
           \<and> (\<exists>lines.
                error_log (fst (api_create_student_absence strptime mail current_user_id st
                                  (Some data)))
                  = error_log st @ lines
                \<and> length lines
                  = length (expected_notifications
                      (db (fst (api_create_student_absence strptime mail current_user_id st
                                  (Some data))))
                      student m module_id)))
       \<and> ((\<forall>n. mail n = None) \<longrightarrow>
             outbox (fst (api_create_student_absence strptime mail current_user_id st (Some data)))
               = outbox st
                 @ expected_notifications
                     (db (fst (api_create_student_absence strptime mail current_user_id st
                                 (Some data))))
                     student m module_id)"
proof -
  define row where "row =
    \<lparr>sa_id = next_student_absence_id (db st), sa_student_id = student_id,
     sa_module_id = module_id, sa_date = day, sa_hours = hours, sa_reason = aj_reason data,
     sa_is_justified = (case aj_is_justified data of None \<Rightarrow> False | Some b \<Rightarrow> b),
     sa_recorded_by_id = current_user_id\<rparr>"
  define st' where "st' = add_student_absence st row"
  have run: "api_create_student_absence strptime mail current_user_id st (Some data)
               = api_notify mail st' student m module_id row"
    unfolding st'_def row_def using assms by (rule api_create_accepted)
  have m: "Module_query_get (db st') module_id = Some m"
    using assms(10) by (simp add: st'_def)
  have kept: "db (fst (api_notify mail st' student m module_id row)) = db st'"
    by (rule api_notify_db)
  have rows: "student_absences (db st') = student_absences (db st) @ [row]"
    by (simp add: st'_def)
  have fields: "sa_student_id row = student_id \<and> sa_module_id row = module_id
                \<and> sa_date row = day \<and> sa_hours row = hours"
    by (simp add: row_def)
  have outbox': "outbox st' = outbox st" and log': "error_log st' = error_log st"
    by (simp_all add: st'_def)
  show ?thesis
    using api_notify_success [OF m, of mail student row]
      api_notify_mail_raises [OF m, of mail student row]
      api_notify_mail_returns [OF m, of mail student row]
      rows fields
    unfolding run kept outbox' log'
    by (intro conjI impI) auto
qed


lemma Module_query_get_id:
  assumes "Module_query_get d k = Some m"
  shows "m_id m = k"
  using assms by (auto simp: Module_query_get_def find_Some_iff)

lemma admin_creation_persists:
  assumes "StudentAbsenceForm_validate_on_submit today (db st) request_method form
             = Some (student_id, module_id, day, hours)"
    "existing_student_absence (db st) student_id module_id day = None"
    "StudentProfile_query_get (db st) student_id = Some student"
    "Module_query_get (db st) module_id = Some m"
  shows "(\<exists>a. student_absences
                (db (fst (admin_create_student_absence today mail current_user_id st request_method form)))
              = student_absences (db st) @ [a]
            \<and> sa_student_id a = student_id \<and> sa_module_id a = module_id
            \<and> sa_date a = day \<and> sa_hours a = hours)
       \<and> snd (admin_create_student_absence today mail current_user_id st request_method form)
           = ([(''Absence enregistree avec succes!'', ''success'')],
              Inr (RedirectTo ''admin.list_student_absences''))
       \<and> ((\<forall>n. mail n \<noteq> None) \<longrightarrow>
             outbox (fst (admin_create_student_absence today mail current_user_id st request_method form))
               = outbox st
           \<and> (\<exists>lines.
                error_log (fst (admin_create_student_absence today mail current_user_id st
                                  request_method form))
                  = error_log st @ lines
                \<and> length lines
                  = length (expected_notifications
                      (db (fst (admin_create_student_absence today mail current_user_id st
                                  request_method form)))
                      student m module_id)))
       \<and> ((\<forall>n. mail n = None) \<longrightarrow>
             outbox (fst (admin_create_student_absence today mail current_user_id st request_method form))
               = outbox st
                 @ expected_notifications
                     (db (fst (admin_create_student_absence today mail current_user_id st
                                 request_method form)))
                     student m module_id)"
proof -
  define row where "row =
    \<lparr>sa_id = next_student_absence_id (db st), sa_student_id = student_id,
     sa_module_id = module_id, sa_date = day, sa_hours = hours,
     sa_reason = Some (form_reason form), sa_is_justified = form_is_justified form,
     sa_recorded_by_id = current_user_id\<rparr>"
  define st' where "st' = add_student_absence st row"
  have run: "admin_create_student_absence today mail current_user_id st request_method form
               = admin_notify mail st' student_id module_id"
    unfolding st'_def row_def using assms(1,2) by (rule admin_create_accepted)
  have s: "StudentProfile_query_get (db st') student_id = Some student"
    using assms(3) by (simp add: st'_def)
  have m: "Module_query_get (db st') module_id = Some m"
    using assms(4) by (simp add: st'_def)
  have k: "m_id m = module_id"
    using assms(4) by (rule Module_query_get_id)
  have rows: "student_absences (db st') = student_absences (db st) @ [row]"
    by (simp add: st'_def)
  have fields: "sa_student_id row = student_id \<and> sa_module_id row = module_id
                \<and> sa_date row = day \<and> sa_hours row = hours"
    by (simp add: row_def)
  have outbox': "outbox st' = outbox st" and log': "error_log st' = error_log st"
    by (simp_all add: st'_def)
  show ?thesis
    using admin_notify_done [OF s m k, of mail]
      admin_notify_mail_raises [OF s m k, of mail]
      admin_notify_mail_returns [OF s m k, of mail]
      rows fields
    unfolding run outbox' log'
    by (intro conjI impI) auto
qed

section \<open>Facts about the example requests\<close>

lemma stored_absence_found:
  "\<exists>a. a \<in> set (student_absences (db (running [absence_row 1 1 738890 5 False])))
       \<and> sa_student_id a = 1 \<and> sa_module_id a = 1 \<and> sa_date a = 738890"
  by (rule exI [of _ "absence_row 1 1 738890 5 False"])
    (simp add: running_def school_def absence_row_def)

lemma stored_professor_absence_found:
  "\<exists>a. a \<in> set (professor_absences (db (running rows)))
       \<and> pa_professor_id a = 1 \<and> pa_date a = 100"
  by (rule exI [of _ "professor_row 1 100 4 False"])
    (simp add: running_def school_def professor_row_def)

lemma running_lookups:
  "StudentProfile_query_get (db (running rows)) 1 = Some alice"
  "Module_query_get (db (running rows)) 1 = Some maths"
  by (simp_all add: running_def school_alice school_maths)

lemma student_form_valid:
  "StudentAbsenceForm_validate_on_submit 738900 (db (running rows)) POST (student_form 738890 h)
     = (if h \<noteq> 0 \<and> 1 / 2 \<le> h \<and> h \<le> 12 then Some (1, 1, 738890, h) else None)"
  by (simp add: StudentAbsenceForm_validate_on_submit_def student_form_def running_def school_def
        alice_def maths_def sport_def reason_validates_def)

lemma blank_reason_validates:
  "reason_validates (replicate 256 CHR '' '')"
  "\<not> reason_validates (replicate 256 CHR ''x'')"
  "reason_validates (replicate 255 CHR ''x'')"
  by (simp_all add: reason_validates_def py_isspace_def list_all_iff)

lemma professor_form_valid:
  "ProfessorAbsenceForm_validate_on_submit 738900 (db (running rows)) POST (professor_form 100 2)
     = Some (1, 100, 2)"
  by (simp add: ProfessorAbsenceForm_validate_on_submit_def professor_form_def running_def
        school_def reason_validates_def)


lemma other_routes_send_nothing:
  "outbox (fst (api_toggle_student_absence_justified st k)) = outbox st
   \<and> outbox (fst (api_delete_student_absence st k)) = outbox st
   \<and> outbox (fst (admin_create_professor_absence today current_user_id st request_method pform)) = outbox st"
  by (auto simp: api_toggle_student_absence_justified_def api_delete_student_absence_def
        admin_create_professor_absence_def add_professor_absence_def Let_def
        split: option.splits prod.splits)

lemma no_absence_stored:
  "existing_student_absence (db (running [])) 1 1 738890 = None"
  by (simp add: existing_student_absence_def running_def school_def)

lemma mail_down_raises: "\<forall>n. mail_down n \<noteq> None"
  by (simp add: mail_down_def)

lemma mail_up_returns: "\<forall>n. mail_up n = None"
  by (simp add: mail_up_def)

lemma api_run_mail_down:
  "api_create_student_absence calendar mail_down 3 (running []) (Some (request_body ''2024-01-05'' 5))
     = (\<lparr>db = school [\<lparr>sa_id = 1, sa_student_id = 1, sa_module_id = 1, sa_date = 738890,
                        sa_hours = 5, sa_reason = None, sa_is_justified = False,
                        sa_recorded_by_id = 3\<rparr>],
         outbox = [], error_log = [''Failed to send warning: Connection refused'']\<rparr>,
        SuccessResponse (AbsenceCreated 1 5 ''warning'' None) ''Absence enregistree'' 201)"
  by code_simp

lemma admin_run_mail_down:
  "admin_create_student_absence 738900 mail_down 3 (running []) POST (student_form 738890 5)
     = (\<lparr>db = school [\<lparr>sa_id = 1, sa_student_id = 1, sa_module_id = 1, sa_date = 738890,
                        sa_hours = 5, sa_reason = Some [], sa_is_justified = False,
                        sa_recorded_by_id = 3\<rparr>],
         outbox = [], error_log = [''Failed to send warning email: Connection refused'']\<rparr>,
        [(''Absence enregistree avec succes!'', ''success'')],
        Inr (RedirectTo ''admin.list_student_absences''))"
  by code_simp

lemma api_run_mail_up:
  "api_create_student_absence calendar mail_up 3 (running []) (Some (request_body ''2024-01-05'' 5))
     = (\<lparr>db = school [\<lparr>sa_id = 1, sa_student_id = 1, sa_module_id = 1, sa_date = 738890,
                        sa_hours = 5, sa_reason = None, sa_is_justified = False,
                        sa_recorded_by_id = 3\<rparr>],
         outbox = [ThresholdWarning 7 ''Maths'' 5 10 50], error_log = []\<rparr>,
        SuccessResponse (AbsenceCreated 1 5 ''warning'' (Some ''warning'')) ''Absence enregistree'' 201)"
  by code_simp

lemma second_creation_facts:
  "StudentAbsenceForm_validate_on_submit 738900 (db after_first_creation) POST
     (student_form 738893 1) = Some (1, 1, 738893, 1)"
  "existing_student_absence (db after_first_creation) 1 1 738893 = None"
  "StudentProfile_query_get (db after_first_creation) 1 = Some alice"
  "Module_query_get (db after_first_creation) 1 = Some maths"
  "outbox after_first_creation = [ThresholdWarning 7 ''Maths'' 5 10 50]"
  "expected_notifications (db after_second_creation) alice maths 1
     = [ThresholdWarning 7 ''Maths'' 6 10 60]"
  by code_simp+

section \<open>Duplicate absences\<close>

text \<open>
  C5. When the stored absence records hold one for a student, a module and a date,
  creating another one for the same student, module and date is rejected and the state,
  with it the stored records, is unchanged: the API
  answers with an error, which is \<open>DuplicateError\<close> with status 409 once the request has
  passed the checks that come before the duplicate check; the admin form is rendered again,
  with the message that the absence is already recorded once the form has validated. The
  same holds for a professor absence with the same professor and date.
\<close>

theorem duplicate_absence_rejected:
  "(aj_student_id data = Some student_id \<and> aj_module_id data = Some module_id
    \<and> aj_date data = Some date_str \<and> strptime date_str = Some day
    \<and> (\<exists>a. a \<in> set (student_absences (db st)) \<and> sa_student_id a = student_id
           \<and> sa_module_id a = module_id \<and> sa_date a = day)
    \<longrightarrow> fst (api_create_student_absence strptime mail current_user_id st (Some data)) = st
      \<and> (\<exists>msg kind code.
            snd (api_create_student_absence strptime mail current_user_id st (Some data))
              = ErrorResponse msg kind code)
      \<and> (aj_hours data = Some hours \<and> hours \<noteq> 0 \<and> student_id \<noteq> 0 \<and> module_id \<noteq> 0
          \<and> date_str \<noteq> []
          \<and> StudentProfile_query_get (db st) student_id \<noteq> None
          \<and> Module_query_get (db st) module_id \<noteq> None
          \<longrightarrow> snd (api_create_student_absence strptime mail current_user_id st (Some data))
                = ErrorResponse ''Cette absence existe deja'' ''DuplicateError'' 409))
   \<and> (form_student_id form = Some student_id' \<and> form_module_id form = Some module_id'
      \<and> form_date form = Some day'
      \<and> (\<exists>a. a \<in> set (student_absences (db st)) \<and> sa_student_id a = student_id'
             \<and> sa_module_id a = module_id' \<and> sa_date a = day')
      \<longrightarrow> fst (admin_create_student_absence today mail current_user_id st request_method form) = st
        \<and> snd (snd (admin_create_student_absence today mail current_user_id st request_method form))
            = Inr (RenderTemplate ''admin/absences/create_student.html'')
        \<and> (StudentAbsenceForm_validate_on_submit today (db st) request_method form \<noteq> None
            \<longrightarrow> fst (snd (admin_create_student_absence today mail current_user_id st request_method form))
                  = [(''Cette absence a deja ete enregistree.'', ''danger'')]))
   \<and> (pform_professor_id pform = Some professor_id \<and> pform_date pform = Some day''
      \<and> (\<exists>a. a \<in> set (professor_absences (db st)) \<and> pa_professor_id a = professor_id
             \<and> pa_date a = day'')
      \<longrightarrow> fst (admin_create_professor_absence today current_user_id st request_method pform) = st
        \<and> snd (snd (admin_create_professor_absence today current_user_id st request_method pform))
            = Inr (RenderTemplate ''admin/absences/create_professor.html'')
        \<and> (ProfessorAbsenceForm_validate_on_submit today (db st) request_method pform \<noteq> None
            \<longrightarrow> fst (snd (admin_create_professor_absence today current_user_id st request_method pform))
                  = [(''Cette absence a deja ete enregistree.'', ''danger'')]))"
  using api_duplicate
      [of data student_id module_id date_str strptime day st mail current_user_id hours]
    admin_duplicate
      [of form student_id' module_id' day' st today mail current_user_id request_method]
    professor_duplicate [of pform professor_id day'' st today current_user_id request_method]
  unfolding existing_student_absence_stored existing_professor_absence_stored
  by blast

text \<open>
  The student has an absence on 2024-01-05 in module 1 and the professor one on day 100;
  recording them again is refused by the API and by both forms.
\<close>

theorem duplicate_absence_rejected_witness:
  "(\<exists>a. a \<in> set (student_absences (db (running [absence_row 1 1 738890 5 False])))
        \<and> sa_student_id a = 1 \<and> sa_module_id a = 1 \<and> sa_date a = 738890)
   \<and> calendar ''2024-01-05'' = Some 738890
   \<and> api_create_student_absence calendar mail_up 3 (running [absence_row 1 1 738890 5 False])
        (Some (request_body ''2024-01-05'' 2))
      = (running [absence_row 1 1 738890 5 False],
         ErrorResponse ''Cette absence existe deja'' ''DuplicateError'' 409)
   \<and> StudentAbsenceForm_validate_on_submit 738900 (db (running [absence_row 1 1 738890 5 False]))
        POST (student_form 738890 2) \<noteq> None
   \<and> admin_create_student_absence 738900 mail_up 3 (running [absence_row 1 1 738890 5 False])
        POST (student_form 738890 2)
      = (running [absence_row 1 1 738890 5 False],
         [(''Cette absence a deja ete enregistree.'', ''danger'')],
         Inr (RenderTemplate ''admin/absences/create_student.html''))
   \<and> (\<exists>a. a \<in> set (professor_absences (db (running [absence_row 1 1 738890 5 False])))
          \<and> pa_professor_id a = 1 \<and> pa_date a = 100)
   \<and> admin_create_professor_absence 738900 3 (running [absence_row 1 1 738890 5 False])
        POST (professor_form 100 2)
      = (running [absence_row 1 1 738890 5 False],
         [(''Cette absence a deja ete enregistree.'', ''danger'')],
         Inr (RenderTemplate ''admin/absences/create_professor.html''))"
proof -
  let ?st = "running [absence_row 1 1 738890 5 False]"
  have cal: "calendar ''2024-01-05'' = Some 738890" by (simp add: calendar_def)
  have body: "aj_student_id (request_body ''2024-01-05'' 2) = Some 1"
    "aj_module_id (request_body ''2024-01-05'' 2) = Some 1"
    "aj_date (request_body ''2024-01-05'' 2) = Some ''2024-01-05''"
    "aj_hours (request_body ''2024-01-05'' 2) = Some 2"
    by (simp_all add: request_body_def)
  have form: "form_student_id (student_form 738890 2) = Some 1"
    "form_module_id (student_form 738890 2) = Some 1"
    "form_date (student_form 738890 2) = Some 738890"
    by (simp_all add: student_form_def)
  have pform: "pform_professor_id (professor_form 100 2) = Some 1"
    "pform_date (professor_form 100 2) = Some 100"
    by (simp_all add: professor_form_def)
  show ?thesis
    using duplicate_absence_rejected
      [where data = "request_body ''2024-01-05'' 2" and student_id = 1 and module_id = 1
         and date_str = "''2024-01-05''" and strptime = calendar and day = 738890 and st = ?st
         and mail = mail_up and current_user_id = 3 and hours = 2
         and form = "student_form 738890 2" and student_id' = 1 and module_id' = 1
         and day' = 738890 and today = 738900 and request_method = POST
         and pform = "professor_form 100 2" and professor_id = 1 and day'' = 100]
      cal body form pform stored_absence_found
      stored_professor_absence_found [of "[absence_row 1 1 738890 5 False]"]
      running_lookups [of "[absence_row 1 1 738890 5 False]"]
      student_form_valid [of "[absence_row 1 1 738890 5 False]" 2]
      professor_form_valid [of "[absence_row 1 1 738890 5 False]"]
    by (simp add: prod_eq_iff)
qed

section \<open>Notifications at absence creation\<close>

text \<open>
  C4. For a creation that passes the validation and the duplicate check, when the email
  call raises: the absence is stored all the same, the caller gets the success answer (the
  API with status 201 and no notification reported, the admin page with the success message
  and the redirect), nothing is handed over, and the failure only adds a line to the error
  log, one for the email that was attempted.
\<close>

theorem email_failure_does_not_block_creation:
  "(aj_student_id data = Some student_id \<and> aj_module_id data = Some module_id
    \<and> aj_date data = Some date_str \<and> aj_hours data = Some hours
    \<and> student_id \<noteq> 0 \<and> module_id \<noteq> 0 \<and> date_str \<noteq> [] \<and> hours \<noteq> 0
    \<and> StudentProfile_query_get (db st) student_id = Some student
    \<and> Module_query_get (db st) module_id = Some m
    \<and> strptime date_str = Some day
    \<and> existing_student_absence (db st) student_id module_id day = None
    \<and> (\<forall>n. mail n \<noteq> None)
    \<longrightarrow> (\<exists>a. student_absences
                 (db (fst (api_create_student_absence strptime mail current_user_id st (Some data))))
               = student_absences (db st) @ [a]
             \<and> sa_student_id a = student_id \<and> sa_module_id a = module_id
             \<and> sa_date a = day \<and> sa_hours a = hours)
        \<and> (\<exists>ident total status.
              snd (api_create_student_absence strptime mail current_user_id st (Some data))
                = SuccessResponse (AbsenceCreated ident total status None)
                    ''Absence enregistree'' 201)
        \<and> outbox (fst (api_create_student_absence strptime mail current_user_id st (Some data)))
            = outbox st
        \<and> (\<exists>lines.
              error_log (fst (api_create_student_absence strptime mail current_user_id st
                                (Some data)))
                = error_log st @ lines
              \<and> length lines
                = length (expected_notifications
                    (db (fst (api_create_student_absence strptime mail current_user_id st
                                (Some data))))
                    student m module_id)))
   \<and> (StudentAbsenceForm_validate_on_submit today (db st) request_method form
         = Some (student_id', module_id', day', hours')
      \<and> existing_student_absence (db st) student_id' module_id' day' = None
      \<and> StudentProfile_query_get (db st) student_id' = Some student'
      \<and> Module_query_get (db st) module_id' = Some m'
      \<and> (\<forall>n. mail n \<noteq> None)
      \<longrightarrow> (\<exists>a. student_absences
                   (db (fst (admin_create_student_absence today mail current_user_id st request_method
                               form)))
                 = student_absences (db st) @ [a]
               \<and> sa_student_id a = student_id' \<and> sa_module_id a = module_id'
               \<and> sa_date a = day' \<and> sa_hours a = hours')
          \<and> snd (admin_create_student_absence today mail current_user_id st request_method form)
              = ([(''Absence enregistree avec succes!'', ''success'')],
                 Inr (RedirectTo ''admin.list_student_absences''))
          \<and> outbox (fst (admin_create_student_absence today mail current_user_id st request_method form))
              = outbox st
          \<and> (\<exists>lines.
                error_log (fst (admin_create_student_absence today mail current_user_id st
                                  request_method form))
                  = error_log st @ lines
                \<and> length lines
                  = length (expected_notifications
                      (db (fst (admin_create_student_absence today mail current_user_id st
                                  request_method form)))
                      student' m' module_id')))"
  using api_creation_persists
      [where data = data and student_id = student_id and module_id = module_id
         and date_str = date_str and hours = hours and st = st and student = student and m = m
         and strptime = strptime and day = day and mail = mail
         and current_user_id = current_user_id]
    admin_creation_persists
      [where today = today and st = st and request_method = request_method and form = form
         and student_id = student_id' and module_id = module_id' and day = day'
         and hours = hours' and student = student' and m = m' and mail = mail
         and current_user_id = current_user_id]
  by blast

text \<open>
  With the mail environment down, 5 hours recorded in the module of threshold 10 are stored
  and answered with success; the log holds the failure.
\<close>

theorem email_failure_does_not_block_creation_witness:
  "aj_student_id (request_body ''2024-01-05'' 5) = Some 1
   \<and> aj_module_id (request_body ''2024-01-05'' 5) = Some 1
   \<and> aj_date (request_body ''2024-01-05'' 5) = Some ''2024-01-05''
   \<and> aj_hours (request_body ''2024-01-05'' 5) = Some 5
   \<and> StudentProfile_query_get (db (running [])) 1 = Some alice
   \<and> Module_query_get (db (running [])) 1 = Some maths
   \<and> calendar ''2024-01-05'' = Some 738890
   \<and> existing_student_absence (db (running [])) 1 1 738890 = None
   \<and> (\<forall>n. mail_down n \<noteq> None)
   \<and> StudentAbsenceForm_validate_on_submit 738900 (db (running [])) POST (student_form 738890 5)
       = Some (1, 1, 738890, 5)
   \<and> outbox (fst (api_create_student_absence calendar mail_down 3 (running [])
                     (Some (request_body ''2024-01-05'' 5)))) = []
   \<and> snd (api_create_student_absence calendar mail_down 3 (running [])
            (Some (request_body ''2024-01-05'' 5)))
       = SuccessResponse (AbsenceCreated 1 5 ''warning'' None) ''Absence enregistree'' 201
   \<and> error_log (fst (api_create_student_absence calendar mail_down 3 (running [])
                        (Some (request_body ''2024-01-05'' 5))))
       = [''Failed to send warning: Connection refused'']
   \<and> outbox (fst (admin_create_student_absence 738900 mail_down 3 (running []) POST
                     (student_form 738890 5))) = []
   \<and> snd (admin_create_student_absence 738900 mail_down 3 (running []) POST
            (student_form 738890 5))
       = ([(''Absence enregistree avec succes!'', ''success'')],
          Inr (RedirectTo ''admin.list_student_absences''))"
proof -
  have body: "aj_student_id (request_body ''2024-01-05'' 5) = Some 1"
    "aj_module_id (request_body ''2024-01-05'' 5) = Some 1"
    "aj_date (request_body ''2024-01-05'' 5) = Some ''2024-01-05''"
    "aj_hours (request_body ''2024-01-05'' 5) = Some 5"
    by (simp_all add: request_body_def)
  have cal: "calendar ''2024-01-05'' = Some 738890" by (simp add: calendar_def)
  have empty: "outbox (running []) = []" by (simp add: running_def)
  show ?thesis
    using email_failure_does_not_block_creation
      [where data = "request_body ''2024-01-05'' 5" and student_id = 1 and module_id = 1
         and date_str = "''2024-01-05''" and hours = 5 and st = "running []"
         and student = alice and m = maths and strptime = calendar and day = 738890
         and mail = mail_down and current_user_id = 3
         and today = 738900 and request_method = POST and form = "student_form 738890 5"
         and student_id' = 1 and module_id' = 1 and day' = 738890 and hours' = 5
         and student' = alice and m' = maths]
      body cal empty no_absence_stored mail_down_raises running_lookups [of "[]"]
      student_form_valid [of "[]" 5] api_run_mail_down admin_run_mail_down
    by simp
qed

text \<open>
  C3, as the specification states it. After 5 hours the status is \<open>warning\<close> and the
  warning email is sent; one more hour leaves the status at \<open>warning\<close>, and the second
  creation sends a warning email again.
\<close>

theorem repeated_warning_counterexample:
  "check_threshold_status (db after_first_creation) 1 1 = ''warning''
   \<and> check_threshold_status (db after_second_creation) 1 1 = ''warning''
   \<and> outbox after_first_creation = [ThresholdWarning 7 ''Maths'' 5 10 50]
   \<and> outbox after_second_creation
       = [ThresholdWarning 7 ''Maths'' 5 10 50, ThresholdWarning 7 ''Maths'' 6 10 60]"
  by code_simp

text \<open>
  C3, amended. Emails are handed over by the creation of a student absence only: toggling
  or deleting an absence and recording a professor absence leave the outbox as it is. Each
  creation that passes the validation and the duplicate check, with a mail environment that
  does not raise, sends exactly the email of the status read back after the insertion (the
  warning email for \<open>warning\<close>, the exceeded email for \<open>exceeded\<close>, none for \<open>ok\<close>),
  whether or not an earlier creation has sent the same email.
\<close>

theorem creation_sends_email_of_status:
  "(aj_student_id data = Some student_id \<and> aj_module_id data = Some module_id
    \<and> aj_date data = Some date_str \<and> aj_hours data = Some hours
    \<and> student_id \<noteq> 0 \<and> module_id \<noteq> 0 \<and> date_str \<noteq> [] \<and> hours \<noteq> 0
    \<and> StudentProfile_query_get (db st) student_id = Some student
    \<and> Module_query_get (db st) module_id = Some m
    \<and> strptime date_str = Some day
    \<and> existing_student_absence (db st) student_id module_id day = None
    \<and> (\<forall>n. mail n = None)
    \<longrightarrow> outbox (fst (api_create_student_absence strptime mail current_user_id st (Some data)))
          = outbox st
            @ expected_notifications
                (db (fst (api_create_student_absence strptime mail current_user_id st
                            (Some data))))
                student m module_id)
   \<and> (StudentAbsenceForm_validate_on_submit today (db st) request_method form
         = Some (student_id', module_id', day', hours')
      \<and> existing_student_absence (db st) student_id' module_id' day' = None
      \<and> StudentProfile_query_get (db st) student_id' = Some student'
      \<and> Module_query_get (db st) module_id' = Some m'
      \<and> (\<forall>n. mail n = None)
      \<longrightarrow> outbox (fst (admin_create_student_absence today mail current_user_id st request_method form))
            = outbox st
              @ expected_notifications
                  (db (fst (admin_create_student_absence today mail current_user_id st request_method
                              form)))
                  student' m' module_id')
   \<and> outbox (fst (api_toggle_student_absence_justified st k)) = outbox st
   \<and> outbox (fst (api_delete_student_absence st k)) = outbox st
   \<and> outbox (fst (admin_create_professor_absence today current_user_id st request_method pform))
       = outbox st"
  using api_creation_persists
      [where data = data and student_id = student_id and module_id = module_id
         and date_str = date_str and hours = hours and st = st and student = student and m = m
         and strptime = strptime and day = day and mail = mail
         and current_user_id = current_user_id]
    admin_creation_persists
      [where today = today and st = st and request_method = request_method and form = form
         and student_id = student_id' and module_id = module_id' and day = day'
         and hours = hours' and student = student' and m = m' and mail = mail
         and current_user_id = current_user_id]
    other_routes_send_nothing [of st k today current_user_id request_method pform]
  by blast

text \<open>
  The second creation of the example, and a creation through the API: each sends the
  warning email of its status.
\<close>

theorem creation_sends_email_of_status_witness:
  "StudentAbsenceForm_validate_on_submit 738900 (db after_first_creation) POST
     (student_form 738893 1) = Some (1, 1, 738893, 1)
   \<and> existing_student_absence (db after_first_creation) 1 1 738893 = None
   \<and> StudentProfile_query_get (db after_first_creation) 1 = Some alice
   \<and> Module_query_get (db after_first_creation) 1 = Some maths
   \<and> (\<forall>n. mail_up n = None)
   \<and> aj_student_id (request_body ''2024-01-05'' 5) = Some 1
   \<and> aj_module_id (request_body ''2024-01-05'' 5) = Some 1
   \<and> aj_date (request_body ''2024-01-05'' 5) = Some ''2024-01-05''
   \<and> aj_hours (request_body ''2024-01-05'' 5) = Some 5
   \<and> StudentProfile_query_get (db (running [])) 1 = Some alice
   \<and> Module_query_get (db (running [])) 1 = Some maths
   \<and> calendar ''2024-01-05'' = Some 738890
   \<and> existing_student_absence (db (running [])) 1 1 738890 = None
   \<and> outbox (fst (admin_create_student_absence 738900 mail_up 3 after_first_creation POST
                     (student_form 738893 1)))
       = outbox after_first_creation
         @ expected_notifications (db after_second_creation) alice maths 1
   \<and> outbox after_second_creation
       = [ThresholdWarning 7 ''Maths'' 5 10 50, ThresholdWarning 7 ''Maths'' 6 10 60]
   \<and> outbox (fst (api_create_student_absence calendar mail_up 3 (running [])
                     (Some (request_body ''2024-01-05'' 5))))
       = [ThresholdWarning 7 ''Maths'' 5 10 50]"
proof -
  have body: "aj_student_id (request_body ''2024-01-05'' 5) = Some 1"
    "aj_module_id (request_body ''2024-01-05'' 5) = Some 1"
    "aj_date (request_body ''2024-01-05'' 5) = Some ''2024-01-05''"
    "aj_hours (request_body ''2024-01-05'' 5) = Some 5"
    by (simp_all add: request_body_def)
  have cal: "calendar ''2024-01-05'' = Some 738890" by (simp add: calendar_def)
  have second: "fst (admin_create_student_absence 738900 mail_up 3 after_first_creation POST
                       (student_form 738893 1)) = after_second_creation"
    by (simp add: after_second_creation_def)
  show ?thesis
    using creation_sends_email_of_status
      [where data = "request_body ''2024-01-05'' 5" and student_id = 1 and module_id = 1
         and date_str = "''2024-01-05''" and hours = 5 and st = "running []"
         and student = alice and m = maths and strptime = calendar and day = 738890
         and mail = mail_up and current_user_id = 3]
      creation_sends_email_of_status
      [where st = after_first_creation and today = 738900 and request_method = POST
         and form = "student_form 738893 1"
         and student_id' = 1 and module_id' = 1 and day' = 738893 and hours' = 1
         and student' = alice and m' = maths and mail = mail_up and current_user_id = 3]
      body cal no_absence_stored mail_up_returns running_lookups [of "[]"]
      second_creation_facts second api_run_mail_up
    by simp
qed

end
